theory Spec2Isabelle
  imports Main "HOL-Library.Word" "HOL-Library.State_Monad"
begin

unbundle bit_operations_syntax

section \<open>Bytes, ranges and the access trace\<close>

text \<open>
  The protocol code works on byte ranges \<open>[begin, end)\<close>. A range is modelled by the list
  of the bytes it spans, so \<open>end - begin\<close> is the length of the list and \<open>begin[i]\<close> is its
  \<open>i\<close>-th element. Dereferencing outside the range is undefined behaviour in C++ and is
  unspecified here (\<open>xs ! i\<close>).

  Two things the code does besides returning a value are recorded in a trace: each
  dereference of an input iterator, and each run of the payload CRC. Functions that read
  their input are written in the state monad over this trace.
\<close>

type_synonym u8 = "8 word"
type_synonym u16 = "16 word"
type_synonym u32 = "32 word"
type_synonym u64 = "64 word"

datatype event =
    Deref nat    \<comment> \<open>\<open>*(begin + i)\<close> was evaluated\<close>
  | CrcRun nat   \<comment> \<open>\<open>protocol::crc\<close> ran over a range of that many bytes\<close>

type_synonym trace = "event list"

definition emit :: "event \<Rightarrow> (trace, unit) state" where
  "emit e = State_Monad.update (\<lambda>t. t @ [e])"

definition deref :: "u8 list \<Rightarrow> nat \<Rightarrow> (trace, u8) state" where
  "deref buf i = do { emit (Deref i); State_Monad.return (buf ! i) }"

section \<open>Checksum engine\<close>

text \<open>
  Modelled from the spec: \<open>boost::crc_ccitt_type\<close>, the library class that
  \<open>protocol::crc\<close> instantiates, is not part of the repository. It is the 16-bit CRC with
  the CCITT polynomial \<open>0x1021\<close>, seed \<open>0xFFFF\<close>, most significant bit first, no final
  inversion.
\<close>

fun crc_shift :: "nat \<Rightarrow> u16 \<Rightarrow> u16" where
  "crc_shift 0 c = c"
| "crc_shift (Suc n) c =
     crc_shift n (if bit c 15 then push_bit 1 c XOR 0x1021 else push_bit 1 c)"

definition crc_byte :: "u16 \<Rightarrow> u8 \<Rightarrow> u16" where
  "crc_byte c b = crc_shift 8 (c XOR push_bit 8 (ucast b))"

definition crc_ccitt :: "u8 list \<Rightarrow> u16" where
  "crc_ccitt bytes = foldl crc_byte 0xFFFF bytes"

text \<open>\<open>protocol::crc(begin, end)\<close>: one pass of the CRC over the range.\<close>

definition crc :: "u8 list \<Rightarrow> (trace, u16) state" where
  "crc bytes = do { emit (CrcRun (length bytes)); State_Monad.return (crc_ccitt bytes) }"

section \<open>Header\<close>

record Header =
  header_checksum :: u8
  packet_id :: u8
  payload_length :: u8
  payload_checksum_lsb :: u8
  payload_checksum_msb :: u8

text \<open>
  \<open>computeHeaderChecksum\<close>: the four bytes are promoted to \<open>int\<close> (32 bits) before the
  sum, the exclusive or and the increment; the \<open>uint8_t\<close> return type truncates.
\<close>

definition computeHeaderChecksum :: "Header \<Rightarrow> u8" where
  "computeHeaderChecksum h =
     ucast ((((ucast (packet_id h) :: u32) + ucast (payload_length h)
              + ucast (payload_checksum_lsb h) + ucast (payload_checksum_msb h)) XOR 0xFF) + 1)"

definition isValid :: "Header \<Rightarrow> bool" where
  "isValid h \<longleftrightarrow> header_checksum h = computeHeaderChecksum h"

text \<open>\<open>Header::Header()\<close>.\<close>

definition Header_default :: Header where
  "Header_default = \<lparr>header_checksum = 1, packet_id = 0, payload_length = 0,
     payload_checksum_lsb = 0, payload_checksum_msb = 0\<rparr>"

text \<open>
  \<open>Header::Header(packet_id, begin, end)\<close>. The member initialiser
  \<open>payload_length(end - begin)\<close> truncates the distance to eight bits. The header checksum
  is computed last, from the other four fields (it is still unset at that point, written
  as 0 here).
\<close>

definition Header_init :: "u8 \<Rightarrow> u8 list \<Rightarrow> (trace, Header) state" where
  "Header_init pid payload = do {
     checksum \<leftarrow> crc payload;
     let h = \<lparr>header_checksum = 0, packet_id = pid,
              payload_length = of_nat (length payload),
              payload_checksum_lsb = ucast ((ucast checksum :: u32) AND 0xFF),
              payload_checksum_msb = ucast (drop_bit 8 (ucast checksum :: u32) AND 0xFF)\<rparr>;
     State_Monad.return (h\<lparr>header_checksum := computeHeaderChecksum h\<rparr>)
   }"

text \<open>
  \<open>Header::isPacketValid\<close>: the length comparison is made on \<open>ptrdiff_t\<close>, the byte
  comparisons on \<open>int\<close>.
\<close>

definition isPacketValid :: "Header \<Rightarrow> u8 list \<Rightarrow> (trace, bool) state" where
  "isPacketValid h payload =
     (if uint (payload_length h) \<noteq> int (length payload) then State_Monad.return False
      else do {
        checksum \<leftarrow> crc payload;
        State_Monad.return
          ((ucast (payload_checksum_lsb h) :: u32) = (ucast checksum AND 0xFF) \<and>
           (ucast (payload_checksum_msb h) :: u32) = (drop_bit 8 (ucast checksum) AND 0xFF))
      })"

definition getPacketLength :: "Header \<Rightarrow> nat" where
  "getPacketLength h = unat (payload_length h) + 5"

section \<open>Acknowledge\<close>

text \<open>The enumeration \<open>ACK_RESULTS\<close>, as the byte values compared with \<open>result\<close>.\<close>

definition ACK_SUCCESS :: u8 where "ACK_SUCCESS = 0"
definition ACK_FAILED_PACKET_VALIDATION_CRC :: u8 where "ACK_FAILED_PACKET_VALIDATION_CRC = 1"
definition ACK_FAILED_PACKET_VALIDATION_SIZE :: u8 where "ACK_FAILED_PACKET_VALIDATION_SIZE = 2"
definition ACK_FAILED_OUT_OF_RANGE :: u8 where "ACK_FAILED_OUT_OF_RANGE = 3"
definition ACK_FAILED_SYSTEM_FLASH_FAILURE :: u8 where "ACK_FAILED_SYSTEM_FLASH_FAILURE = 4"
definition ACK_FAILED_SYSTEM_NOT_READY :: u8 where "ACK_FAILED_SYSTEM_NOT_READY = 5"
definition ACK_FAILED_UNKNOWN_PACKET :: u8 where "ACK_FAILED_UNKNOWN_PACKET = 6"

lemmas ACK_RESULTS_defs =
  ACK_SUCCESS_def ACK_FAILED_PACKET_VALIDATION_CRC_def ACK_FAILED_PACKET_VALIDATION_SIZE_def
  ACK_FAILED_OUT_OF_RANGE_def ACK_FAILED_SYSTEM_FLASH_FAILURE_def
  ACK_FAILED_SYSTEM_NOT_READY_def ACK_FAILED_UNKNOWN_PACKET_def

record Acknowledge =
  acked_packet_id :: u8
  acked_payload_checksum_lsb :: u8
  acked_payload_checksum_msb :: u8
  result :: u8

definition isMatching :: "Acknowledge \<Rightarrow> Header \<Rightarrow> bool" where
  "isMatching a h \<longleftrightarrow>
     acked_packet_id a = packet_id h \<and>
     acked_payload_checksum_lsb a = payload_checksum_lsb h \<and>
     acked_payload_checksum_msb a = payload_checksum_msb h"

definition isSuccess :: "Acknowledge \<Rightarrow> bool" where
  "isSuccess a \<longleftrightarrow> result a = ACK_SUCCESS"

definition isPacketValidationFailure :: "Acknowledge \<Rightarrow> bool" where
  "isPacketValidationFailure a \<longleftrightarrow>
     result a = ACK_FAILED_PACKET_VALIDATION_CRC \<or> result a = ACK_FAILED_PACKET_VALIDATION_SIZE"

definition isProtocolError :: "Acknowledge \<Rightarrow> bool" where
  "isProtocolError a \<longleftrightarrow>
     result a = ACK_FAILED_OUT_OF_RANGE \<or> result a = ACK_FAILED_UNKNOWN_PACKET"

definition isSystemError :: "Acknowledge \<Rightarrow> bool" where
  "isSystemError a \<longleftrightarrow> result a = ACK_FAILED_SYSTEM_FLASH_FAILURE"

definition isNotReady :: "Acknowledge \<Rightarrow> bool" where
  "isNotReady a \<longleftrightarrow> result a = ACK_FAILED_SYSTEM_NOT_READY"

section \<open>Little-endian read and write helpers\<close>

text \<open>
  \<open>float\<close> and \<open>double\<close> values appear in the code only through
  \<open>reinterpret_cast\<close> of the integer read from, or written to, the wire. They are modelled
  by their IEEE-754 bit patterns.
\<close>

type_synonym float = u32
type_synonym double = u64

text \<open>
  \<open>read16\<close>, \<open>read32\<close>, \<open>read64\<close>: \<open>it\<close> is the offset of the iterator from the start
  of the range. In \<open>read16\<close> the operands of \<open>|\<close> and \<open><<\<close> are promoted to \<open>int\<close>.
\<close>

definition read16 :: "u8 list \<Rightarrow> nat \<Rightarrow> (trace, u16) state" where
  "read16 buf it = do {
     b0 \<leftarrow> deref buf it;
     b1 \<leftarrow> deref buf (it + 1);
     State_Monad.return (ucast ((ucast b0 :: u32) OR push_bit 8 (ucast b1)))
   }"

definition read32 :: "u8 list \<Rightarrow> nat \<Rightarrow> (trace, u32) state" where
  "read32 buf it = do {
     b0 \<leftarrow> deref buf it;
     b1 \<leftarrow> deref buf (it + 1);
     b2 \<leftarrow> deref buf (it + 2);
     b3 \<leftarrow> deref buf (it + 3);
     State_Monad.return
       (ucast b0 OR push_bit 8 (ucast b1) OR push_bit 16 (ucast b2) OR push_bit 24 (ucast b3))
   }"

definition read64 :: "u8 list \<Rightarrow> nat \<Rightarrow> (trace, u64) state" where
  "read64 buf it = do {
     b0 \<leftarrow> deref buf it;
     b1 \<leftarrow> deref buf (it + 1);
     b2 \<leftarrow> deref buf (it + 2);
     b3 \<leftarrow> deref buf (it + 3);
     b4 \<leftarrow> deref buf (it + 4);
     b5 \<leftarrow> deref buf (it + 5);
     b6 \<leftarrow> deref buf (it + 6);
     b7 \<leftarrow> deref buf (it + 7);
     State_Monad.return
       (ucast b0 OR push_bit 8 (ucast b1) OR push_bit 16 (ucast b2) OR push_bit 24 (ucast b3)
        OR push_bit 32 (ucast b4) OR push_bit 40 (ucast b5) OR push_bit 48 (ucast b6)
        OR push_bit 56 (ucast b7))
   }"

text \<open>
  Output iterators write into a store of bytes, a map from positions to bytes; \<open>out\<close> is a
  position and \<open>out[i] = v\<close> stores \<open>v\<close> at \<open>out + i\<close>. The caller provides the room.
\<close>

type_synonym store = "nat \<Rightarrow> u8"

definition write16 :: "store \<Rightarrow> nat \<Rightarrow> u16 \<Rightarrow> store" where
  "write16 mem out v =
     mem(out := ucast ((ucast v :: u32) AND 0xFF),
         out + 1 := ucast (drop_bit 8 (ucast v :: u32) AND 0xFF))"

definition write32 :: "store \<Rightarrow> nat \<Rightarrow> u32 \<Rightarrow> store" where
  "write32 mem out v =
     mem(out := ucast (drop_bit 0 v AND 0xFF),
         out + 1 := ucast (drop_bit 8 v AND 0xFF),
         out + 2 := ucast (drop_bit 16 v AND 0xFF),
         out + 3 := ucast (drop_bit 24 v AND 0xFF))"

definition write64 :: "store \<Rightarrow> nat \<Rightarrow> u64 \<Rightarrow> store" where
  "write64 mem out v =
     mem(out + 1 := ucast (drop_bit 8 v AND 0xFF),
         out + 2 := ucast (drop_bit 16 v AND 0xFF),
         out + 3 := ucast (drop_bit 24 v AND 0xFF),
         out + 4 := ucast (drop_bit 32 v AND 0xFF),
         out + 5 := ucast (drop_bit 40 v AND 0xFF),
         out + 6 := ucast (drop_bit 48 v AND 0xFF),
         out + 7 := ucast (drop_bit 56 v AND 0xFF))"

text \<open>The bytes of the store between two positions, as an input range.\<close>

definition bytes_of :: "store \<Rightarrow> nat \<Rightarrow> nat \<Rightarrow> u8 list" where
  "bytes_of mem b e = map mem [b..<e]"

text \<open>\<open>for (int i = lo; i < hi; ++i) body\<close>, over the indices \<open>[lo..<hi]\<close>.\<close>

fun for_range :: "nat list \<Rightarrow> (nat \<Rightarrow> 'a \<Rightarrow> (trace, 'a) state) \<Rightarrow> 'a \<Rightarrow> (trace, 'a) state" where
  "for_range [] body s = State_Monad.return s"
| "for_range (i # is) body s = do { s' \<leftarrow> body i s; for_range is body s' }"

text \<open>\<open>throw std::length_error(...)\<close>.\<close>

datatype error = length_error

definition throw :: "error \<Rightarrow> (trace, error + 'a) state" where
  "throw e = State_Monad.return (Inl e)"

section \<open>Packet catalog\<close>

text \<open>
  All packet structures are declared \<open>__attribute__((packed))\<close>, so \<open>sizeof\<close> is the sum
  of the field sizes and agrees with the declared \<open>SIZE\<close>; decoders that compare with
  \<open>sizeof\<close> and decoders that compare with \<open>SIZE\<close> are both written with the \<open>SIZE\<close>
  constant. Fixed-length arrays are lists of that length. A structure declared without
  initialiser has indeterminate fields; they are written as zeros and every one of them is
  assigned before the decoder returns.
\<close>

subsection \<open>Acknowledge, boot mode, device information\<close>

definition Acknowledge_SIZE :: nat where "Acknowledge_SIZE = 4"

definition Acknowledge_unmarshal :: "u8 list \<Rightarrow> (trace, error + Acknowledge) state" where
  "Acknowledge_unmarshal buf =
     (if length buf \<noteq> Acknowledge_SIZE then throw length_error
      else do {
        b0 \<leftarrow> deref buf 0;
        b1 \<leftarrow> deref buf 1;
        b2 \<leftarrow> deref buf 2;
        b3 \<leftarrow> deref buf 3;
        State_Monad.return (Inr \<lparr>acked_packet_id = b0, acked_payload_checksum_lsb = b1,
          acked_payload_checksum_msb = b2, result = b3\<rparr>)
      })"

record BootMode =
  boot_mode :: u8

definition BootMode_SIZE :: nat where "BootMode_SIZE = 1"

definition BootMode_marshal :: "BootMode \<Rightarrow> store \<Rightarrow> nat \<Rightarrow> store \<times> nat" where
  "BootMode_marshal x mem out = (mem(out := boot_mode x), out + 1)"

definition BootMode_unmarshal :: "u8 list \<Rightarrow> (trace, error + BootMode) state" where
  "BootMode_unmarshal buf =
     (if length buf \<noteq> BootMode_SIZE then throw length_error
      else do {
        b \<leftarrow> deref buf 0;
        State_Monad.return (Inr \<lparr>boot_mode = b\<rparr>)
      })"

record DeviceInformation =
  software_version :: u32
  device_id :: u32
  hardware_revision :: u32
  serial_number_part0 :: u32
  serial_number_part1 :: u32
  serial_number_part2 :: u32

definition DeviceInformation_SIZE :: nat where "DeviceInformation_SIZE = 24"

definition DeviceInformation_unmarshal :: "u8 list \<Rightarrow> (trace, error + DeviceInformation) state" where
  "DeviceInformation_unmarshal buf =
     (if length buf \<noteq> DeviceInformation_SIZE then throw length_error
      else do {
        v0 \<leftarrow> read32 buf 0;
        v1 \<leftarrow> read32 buf 4;
        v2 \<leftarrow> read32 buf 8;
        v3 \<leftarrow> read32 buf 12;
        v4 \<leftarrow> read32 buf 16;
        v5 \<leftarrow> read32 buf 20;
        State_Monad.return (Inr \<lparr>software_version = v0, device_id = v1,
          hardware_revision = v2, serial_number_part0 = v3, serial_number_part1 = v4,
          serial_number_part2 = v5\<rparr>)
      })"

subsection \<open>System state, time and status\<close>

record SystemState =
  system_status :: u16
  filter_status :: u16
  unix_time_seconds :: u32
  unix_time_microseconds :: u32
  lat_lon_z :: "double list"
  velocity_ned :: "float list"
  body_acceleration_xyz :: "float list"
  g :: float
  rpy :: "float list"
  angular_velocity :: "float list"
  lat_lon_z_stddev :: "float list"

definition SystemState_SIZE :: nat where "SystemState_SIZE = 100"

definition SystemState_uninit :: SystemState where
  "SystemState_uninit = \<lparr>system_status = 0, filter_status = 0, unix_time_seconds = 0,
     unix_time_microseconds = 0, lat_lon_z = replicate 3 0, velocity_ned = replicate 3 0,
     body_acceleration_xyz = replicate 3 0, g = 0, rpy = replicate 3 0,
     angular_velocity = replicate 3 0, lat_lon_z_stddev = replicate 3 0\<rparr>"

definition SystemState_unmarshal :: "u8 list \<Rightarrow> (trace, error + SystemState) state" where
  "SystemState_unmarshal buf =
     (if length buf \<noteq> SystemState_SIZE then throw length_error
      else do {
        v0 \<leftarrow> read16 buf 0;
        v1 \<leftarrow> read16 buf 2;
        v2 \<leftarrow> read32 buf 4;
        v3 \<leftarrow> read32 buf 8;
        v4 \<leftarrow> read32 buf 60;
        st \<leftarrow> for_range [0..<3] (\<lambda>i st. do {
            a \<leftarrow> read64 buf (12 + 8 * i);
            b \<leftarrow> read32 buf (36 + 4 * i);
            c \<leftarrow> read32 buf (48 + 4 * i);
            d \<leftarrow> read32 buf (64 + 4 * i);
            e \<leftarrow> read32 buf (76 + 4 * i);
            f \<leftarrow> read32 buf (88 + 4 * i);
            State_Monad.return (st\<lparr>
              SystemState.lat_lon_z := (SystemState.lat_lon_z st)[i := a],
              SystemState.velocity_ned := (SystemState.velocity_ned st)[i := b],
              SystemState.body_acceleration_xyz := (SystemState.body_acceleration_xyz st)[i := c],
              SystemState.rpy := (SystemState.rpy st)[i := d],
              SystemState.angular_velocity := (SystemState.angular_velocity st)[i := e],
              SystemState.lat_lon_z_stddev := (SystemState.lat_lon_z_stddev st)[i := f]\<rparr>)
          })
          (SystemState_uninit\<lparr>SystemState.system_status := v0,
             SystemState.filter_status := v1, SystemState.unix_time_seconds := v2,
             SystemState.unix_time_microseconds := v3, SystemState.g := v4\<rparr>);
        State_Monad.return (Inr st)
      })"

record UnixTime =
  seconds :: u32
  microseconds :: u32

definition UnixTime_SIZE :: nat where "UnixTime_SIZE = 8"

definition UnixTime_unmarshal :: "u8 list \<Rightarrow> (trace, error + UnixTime) state" where
  "UnixTime_unmarshal buf =
     (if length buf \<noteq> UnixTime_SIZE then throw length_error
      else do {
        v0 \<leftarrow> read32 buf 0;
        v1 \<leftarrow> read32 buf 4;
        State_Monad.return (Inr \<lparr>seconds = v0, microseconds = v1\<rparr>)
      })"

record Status =
  system_status :: u16
  filter_status :: u16

definition Status_SIZE :: nat where "Status_SIZE = 4"

definition Status_unmarshal :: "u8 list \<Rightarrow> (trace, error + Status) state" where
  "Status_unmarshal buf =
     (if length buf \<noteq> Status_SIZE then throw length_error
      else do {
        v0 \<leftarrow> read16 buf 0;
        v1 \<leftarrow> read16 buf 2;
        State_Monad.return (Inr \<lparr>Status.system_status = v0, Status.filter_status = v1\<rparr>)
      })"

subsection \<open>Standard deviations\<close>

record GeodeticPositionStandardDeviation =
  lat_lon_z_stddev :: "float list"

definition GeodeticPositionStandardDeviation_SIZE :: nat where "GeodeticPositionStandardDeviation_SIZE = 12"

definition GeodeticPositionStandardDeviation_unmarshal :: "u8 list \<Rightarrow> (trace, error + GeodeticPositionStandardDeviation) state" where
  "GeodeticPositionStandardDeviation_unmarshal buf =
     (if length buf \<noteq> GeodeticPositionStandardDeviation_SIZE then throw length_error
      else do {
        v0 \<leftarrow> read32 buf 0;
        v1 \<leftarrow> read32 buf 4;
        v2 \<leftarrow> read32 buf 8;
        State_Monad.return (Inr \<lparr>GeodeticPositionStandardDeviation.lat_lon_z_stddev = [v0, v1, v2]\<rparr>)
      })"

record NEDVelocityStandardDeviation =
  ned :: "float list"

definition NEDVelocityStandardDeviation_SIZE :: nat where "NEDVelocityStandardDeviation_SIZE = 12"

definition NEDVelocityStandardDeviation_unmarshal :: "u8 list \<Rightarrow> (trace, error + NEDVelocityStandardDeviation) state" where
  "NEDVelocityStandardDeviation_unmarshal buf =
     (if length buf \<noteq> NEDVelocityStandardDeviation_SIZE then throw length_error
      else do {
        v0 \<leftarrow> read32 buf 0;
        v1 \<leftarrow> read32 buf 4;
        v2 \<leftarrow> read32 buf 8;
        State_Monad.return (Inr \<lparr>NEDVelocityStandardDeviation.ned = [v0, v1, v2]\<rparr>)
      })"

record EulerOrientationStandardDeviation =
  rpy :: "float list"

definition EulerOrientationStandardDeviation_SIZE :: nat where "EulerOrientationStandardDeviation_SIZE = 12"

definition EulerOrientationStandardDeviation_unmarshal :: "u8 list \<Rightarrow> (trace, error + EulerOrientationStandardDeviation) state" where
  "EulerOrientationStandardDeviation_unmarshal buf =
     (if length buf \<noteq> EulerOrientationStandardDeviation_SIZE then throw length_error
      else do {
        v0 \<leftarrow> read32 buf 0;
        v1 \<leftarrow> read32 buf 4;
        v2 \<leftarrow> read32 buf 8;
        State_Monad.return (Inr \<lparr>EulerOrientationStandardDeviation.rpy = [v0, v1, v2]\<rparr>)
      })"

subsection \<open>Raw sensors, raw GNSS and satellites\<close>

record RawSensors =
  accelerometers_xyz :: "float list"
  gyroscope_xyz :: "float list"
  magnetometer_xyz :: "float list"
  imu_temperature_C :: float
  pressure :: float
  pressure_temperature_C :: float

definition RawSensors_SIZE :: nat where "RawSensors_SIZE = 48"

definition RawSensors_uninit :: RawSensors where
  "RawSensors_uninit = \<lparr>accelerometers_xyz = replicate 3 0, gyroscope_xyz = replicate 3 0,
     magnetometer_xyz = replicate 3 0, imu_temperature_C = 0, pressure = 0,
     pressure_temperature_C = 0\<rparr>"

definition RawSensors_unmarshal :: "u8 list \<Rightarrow> (trace, error + RawSensors) state" where
  "RawSensors_unmarshal buf =
     (if length buf \<noteq> RawSensors_SIZE then throw length_error
      else do {
        out \<leftarrow> for_range [0..<3] (\<lambda>i out. do {
            a \<leftarrow> read32 buf (0 + 4 * i);
            b \<leftarrow> read32 buf (12 + 4 * i);
            c \<leftarrow> read32 buf (24 + 4 * i);
            State_Monad.return (out\<lparr>
              accelerometers_xyz := (accelerometers_xyz out)[i := a],
              gyroscope_xyz := (gyroscope_xyz out)[i := b],
              magnetometer_xyz := (magnetometer_xyz out)[i := c]\<rparr>)
          })
          RawSensors_uninit;
        v0 \<leftarrow> read32 buf 36;
        v1 \<leftarrow> read32 buf 40;
        v2 \<leftarrow> read32 buf 44;
        State_Monad.return (Inr (out\<lparr>imu_temperature_C := v0, pressure := v1,
          pressure_temperature_C := v2\<rparr>))
      })"

record RawGNSS =
  unix_time_seconds :: u32
  unix_time_microseconds :: u32
  lat_lon_z :: "double list"
  velocity_ned :: "float list"
  lat_lon_z_stddev :: "float list"
  pitch :: float
  yaw :: float
  pitch_stddev :: float
  yaw_stddev :: float
  status :: u16

definition RawGNSS_SIZE :: nat where "RawGNSS_SIZE = 74"

definition RawGNSS_uninit :: RawGNSS where
  "RawGNSS_uninit = \<lparr>unix_time_seconds = 0, unix_time_microseconds = 0,
     lat_lon_z = replicate 3 0, velocity_ned = replicate 3 0, lat_lon_z_stddev = replicate 3 0,
     pitch = 0, yaw = 0, pitch_stddev = 0, yaw_stddev = 0, status = 0\<rparr>"

definition RawGNSS_unmarshal :: "u8 list \<Rightarrow> (trace, error + RawGNSS) state" where
  "RawGNSS_unmarshal buf =
     (if length buf \<noteq> RawGNSS_SIZE then throw length_error
      else do {
        v0 \<leftarrow> read32 buf 0;
        v1 \<leftarrow> read32 buf 4;
        out \<leftarrow> for_range [0..<3] (\<lambda>i out. do {
            a \<leftarrow> read64 buf (8 + 8 * i);
            b \<leftarrow> read32 buf (32 + 4 * i);
            c \<leftarrow> read32 buf (44 + 4 * i);
            State_Monad.return (out\<lparr>
              RawGNSS.lat_lon_z := (RawGNSS.lat_lon_z out)[i := a],
              RawGNSS.velocity_ned := (RawGNSS.velocity_ned out)[i := b],
              RawGNSS.lat_lon_z_stddev := (RawGNSS.lat_lon_z_stddev out)[i := c]\<rparr>)
          })
          (RawGNSS_uninit\<lparr>RawGNSS.unix_time_seconds := v0,
             RawGNSS.unix_time_microseconds := v1\<rparr>);
        v2 \<leftarrow> read32 buf 56;
        v3 \<leftarrow> read32 buf 60;
        v4 \<leftarrow> read32 buf 64;
        v5 \<leftarrow> read32 buf 68;
        v6 \<leftarrow> read16 buf 72;
        State_Monad.return (Inr (out\<lparr>pitch := v2, yaw := v3, pitch_stddev := v4,
          yaw_stddev := v5, status := v6\<rparr>))
      })"

record Satellites =
  hdop :: float
  vdop :: float
  gps_satellite_count :: u8
  glonass_satellite_count :: u8
  beidou_satellite_count :: u8
  galileo_satellite_count :: u8
  sbas_satellite_count :: u8

definition Satellites_SIZE :: nat where "Satellites_SIZE = 13"

definition Satellites_unmarshal :: "u8 list \<Rightarrow> (trace, error + Satellites) state" where
  "Satellites_unmarshal buf =
     (if length buf \<noteq> Satellites_SIZE then throw length_error
      else do {
        v0 \<leftarrow> read32 buf 0;
        v1 \<leftarrow> read32 buf 4;
        b8 \<leftarrow> deref buf 8;
        b9 \<leftarrow> deref buf 9;
        b10 \<leftarrow> deref buf 10;
        b11 \<leftarrow> deref buf 11;
        b12 \<leftarrow> deref buf 12;
        State_Monad.return (Inr \<lparr>hdop = v0, vdop = v1, gps_satellite_count = b8,
          glonass_satellite_count = b9, beidou_satellite_count = b10,
          galileo_satellite_count = b11, sbas_satellite_count = b12\<rparr>)
      })"

record SatelliteInfo =
  system :: u8
  prn :: u8
  frequencies :: u8
  elevation :: u8
  azimuth :: u16
  snr :: u8

definition SatelliteInfo_SIZE :: nat where "SatelliteInfo_SIZE = 7"

text \<open>
  \<open>SatelliteInfo::unmarshal(begin, end)\<close> makes no length check and never uses \<open>end\<close>;
  \<open>begin\<close> is the offset of the record in the enclosing range.
\<close>

definition SatelliteInfo_unmarshal :: "u8 list \<Rightarrow> nat \<Rightarrow> (trace, SatelliteInfo) state" where
  "SatelliteInfo_unmarshal buf begin = do {
     b0 \<leftarrow> deref buf (begin + 0);
     b1 \<leftarrow> deref buf (begin + 1);
     b2 \<leftarrow> deref buf (begin + 2);
     b3 \<leftarrow> deref buf (begin + 3);
     az \<leftarrow> read16 buf (begin + 4);
     b6 \<leftarrow> deref buf (begin + 6);
     State_Monad.return \<lparr>system = b0, prn = b1, frequencies = b2, elevation = b3,
       azimuth = az, snr = b6\<rparr>
   }"

text \<open>
  \<open>DetailedSatellites::unmarshal(begin, end, info)\<close> appends to the vector \<open>info\<close>. Its
  loop runs while \<open>begin != end\<close> in steps of seven bytes, so by itself it need not stop:
  the loop is a partial function, \<open>None\<close> when it does not return. The length of a list is
  not negative, and there the remainder \<open>%\<close> of C++ is \<open>mod\<close>.
\<close>

partial_function (option) DetailedSatellites_loop ::
  "u8 list \<Rightarrow> nat \<Rightarrow> SatelliteInfo list \<Rightarrow> trace \<Rightarrow> (SatelliteInfo list \<times> trace) option" where
  "DetailedSatellites_loop buf begin info t =
     (if begin = length buf then Some (info, t)
      else case run_state (SatelliteInfo_unmarshal buf begin) t of
        (s, t') \<Rightarrow> DetailedSatellites_loop buf (begin + SatelliteInfo_SIZE) (info @ [s]) t')"

definition DetailedSatellites_unmarshal ::
  "u8 list \<Rightarrow> SatelliteInfo list \<Rightarrow> trace \<Rightarrow> ((error + SatelliteInfo list) \<times> trace) option" where
  "DetailedSatellites_unmarshal buf info t =
     (if length buf mod SatelliteInfo_SIZE \<noteq> 0 then Some (Inl length_error, t)
      else map_option (\<lambda>(info', t'). (Inr info', t')) (DetailedSatellites_loop buf 0 info t))"

subsection \<open>Velocities, accelerations, orientation, magnetic field\<close>

record NEDVelocity =
  ned :: "float list"

definition NEDVelocity_SIZE :: nat where "NEDVelocity_SIZE = 12"

definition NEDVelocity_unmarshal :: "u8 list \<Rightarrow> (trace, error + NEDVelocity) state" where
  "NEDVelocity_unmarshal buf =
     (if length buf \<noteq> NEDVelocity_SIZE then throw length_error
      else do {
        v0 \<leftarrow> read32 buf 0;
        v1 \<leftarrow> read32 buf 4;
        v2 \<leftarrow> read32 buf 8;
        State_Monad.return (Inr \<lparr>NEDVelocity.ned = [v0, v1, v2]\<rparr>)
      })"

record BodyVelocity =
  xyz :: "float list"

definition BodyVelocity_SIZE :: nat where "BodyVelocity_SIZE = 12"

definition BodyVelocity_unmarshal :: "u8 list \<Rightarrow> (trace, error + BodyVelocity) state" where
  "BodyVelocity_unmarshal buf =
     (if length buf \<noteq> BodyVelocity_SIZE then throw length_error
      else do {
        v0 \<leftarrow> read32 buf 0;
        v1 \<leftarrow> read32 buf 4;
        v2 \<leftarrow> read32 buf 8;
        State_Monad.return (Inr \<lparr>BodyVelocity.xyz = [v0, v1, v2]\<rparr>)
      })"

record Acceleration =
  xyz :: "float list"

definition Acceleration_SIZE :: nat where "Acceleration_SIZE = 12"

definition Acceleration_unmarshal :: "u8 list \<Rightarrow> (trace, error + Acceleration) state" where
  "Acceleration_unmarshal buf =
     (if length buf \<noteq> Acceleration_SIZE then throw length_error
      else do {
        v0 \<leftarrow> read32 buf 0;
        v1 \<leftarrow> read32 buf 4;
        v2 \<leftarrow> read32 buf 8;
        State_Monad.return (Inr \<lparr>Acceleration.xyz = [v0, v1, v2]\<rparr>)
      })"

record BodyAcceleration =
  xyz :: "float list"
  g :: float

definition BodyAcceleration_SIZE :: nat where "BodyAcceleration_SIZE = 16"

definition BodyAcceleration_unmarshal :: "u8 list \<Rightarrow> (trace, error + BodyAcceleration) state" where
  "BodyAcceleration_unmarshal buf =
     (if length buf \<noteq> BodyAcceleration_SIZE then throw length_error
      else do {
        v0 \<leftarrow> read32 buf 0;
        v1 \<leftarrow> read32 buf 4;
        v2 \<leftarrow> read32 buf 8;
        v3 \<leftarrow> read32 buf 12;
        State_Monad.return (Inr \<lparr>BodyAcceleration.xyz = [v0, v1, v2], BodyAcceleration.g = v3\<rparr>)
      })"

record QuaternionOrientation =
  im :: float
  xyz :: "float list"

definition QuaternionOrientation_SIZE :: nat where "QuaternionOrientation_SIZE = 16"

definition QuaternionOrientation_unmarshal ::
  "u8 list \<Rightarrow> (trace, error + QuaternionOrientation) state" where
  "QuaternionOrientation_unmarshal buf =
     (if length buf \<noteq> QuaternionOrientation_SIZE then throw length_error
      else do {
        v0 \<leftarrow> read32 buf 0;
        v1 \<leftarrow> read32 buf 4;
        v2 \<leftarrow> read32 buf 8;
        v3 \<leftarrow> read32 buf 12;
        State_Monad.return (Inr \<lparr>im = v0, QuaternionOrientation.xyz = [v1, v2, v3]\<rparr>)
      })"

record AngularVelocity =
  xyz :: "float list"

definition AngularVelocity_SIZE :: nat where "AngularVelocity_SIZE = 12"

definition AngularVelocity_unmarshal :: "u8 list \<Rightarrow> (trace, error + AngularVelocity) state" where
  "AngularVelocity_unmarshal buf =
     (if length buf \<noteq> AngularVelocity_SIZE then throw length_error
      else do {
        v0 \<leftarrow> read32 buf 0;
        v1 \<leftarrow> read32 buf 4;
        v2 \<leftarrow> read32 buf 8;
        State_Monad.return (Inr \<lparr>AngularVelocity.xyz = [v0, v1, v2]\<rparr>)
      })"

record AngularAcceleration =
  xyz :: "float list"

definition AngularAcceleration_SIZE :: nat where "AngularAcceleration_SIZE = 12"

definition AngularAcceleration_unmarshal :: "u8 list \<Rightarrow> (trace, error + AngularAcceleration) state" where
  "AngularAcceleration_unmarshal buf =
     (if length buf \<noteq> AngularAcceleration_SIZE then throw length_error
      else do {
        v0 \<leftarrow> read32 buf 0;
        v1 \<leftarrow> read32 buf 4;
        v2 \<leftarrow> read32 buf 8;
        State_Monad.return (Inr \<lparr>AngularAcceleration.xyz = [v0, v1, v2]\<rparr>)
      })"

record LocalMagneticField =
  xyz :: "float list"

definition LocalMagneticField_SIZE :: nat where "LocalMagneticField_SIZE = 12"

definition LocalMagneticField_unmarshal :: "u8 list \<Rightarrow> (trace, error + LocalMagneticField) state" where
  "LocalMagneticField_unmarshal buf =
     (if length buf \<noteq> LocalMagneticField_SIZE then throw length_error
      else do {
        v0 \<leftarrow> read32 buf 0;
        v1 \<leftarrow> read32 buf 4;
        v2 \<leftarrow> read32 buf 8;
        State_Monad.return (Inr \<lparr>LocalMagneticField.xyz = [v0, v1, v2]\<rparr>)
      })"

subsection \<open>Configuration packets\<close>

record PacketTimerPeriod =
  permanent :: u8
  utc_synchronization :: u8
  period :: u16

definition PacketTimerPeriod_SIZE :: nat where "PacketTimerPeriod_SIZE = 4"

definition PacketTimerPeriod_marshal :: "PacketTimerPeriod \<Rightarrow> store \<Rightarrow> nat \<Rightarrow> store \<times> nat" where
  "PacketTimerPeriod_marshal x mem out =
     (write16 (mem(out := PacketTimerPeriod.permanent x, out + 1 := utc_synchronization x))
        (out + 2) (period x),
      out + PacketTimerPeriod_SIZE)"

definition PacketTimerPeriod_unmarshal :: "u8 list \<Rightarrow> (trace, error + PacketTimerPeriod) state" where
  "PacketTimerPeriod_unmarshal buf =
     (if length buf \<noteq> PacketTimerPeriod_SIZE then throw length_error
      else do {
        b1 \<leftarrow> deref buf 1;
        v \<leftarrow> read16 buf 2;
        State_Monad.return (Inr \<lparr>PacketTimerPeriod.permanent = 0, utc_synchronization = b1,
          period = v\<rparr>)
      })"

text \<open>
  \<open>PacketPeriods::unmarshal\<close> returns a \<open>std::map<uint8_t, uint32_t>\<close>. The loop has the
  same shape as the one of \<open>DetailedSatellites\<close>, in steps of five bytes. In
  \<open>result[*begin] = read32(begin + 1)\<close> the right operand is evaluated first.
\<close>

definition PacketPeriods_MIN_SIZE :: nat where "PacketPeriods_MIN_SIZE = 2"
definition PacketPeriods_PERIOD_SIZE :: nat where "PacketPeriods_PERIOD_SIZE = 5"

partial_function (option) PacketPeriods_loop ::
  "u8 list \<Rightarrow> nat \<Rightarrow> (u8 \<rightharpoonup> u32) \<Rightarrow> trace \<Rightarrow> ((u8 \<rightharpoonup> u32) \<times> trace) option" where
  "PacketPeriods_loop buf begin res t =
     (if begin = length buf then Some (res, t)
      else case run_state (do {
          v \<leftarrow> read32 buf (begin + 1);
          k \<leftarrow> deref buf begin;
          State_Monad.return (res(k \<mapsto> v))
        }) t of
        (res', t') \<Rightarrow> PacketPeriods_loop buf (begin + PacketPeriods_PERIOD_SIZE) res' t')"

definition PacketPeriods_unmarshal ::
  "u8 list \<Rightarrow> trace \<Rightarrow> ((error + (u8 \<rightharpoonup> u32)) \<times> trace) option" where
  "PacketPeriods_unmarshal buf t =
     (if int (length buf) < int PacketPeriods_MIN_SIZE then Some (Inl length_error, t)
      else if (int (length buf) - int PacketPeriods_MIN_SIZE) mod int PacketPeriods_PERIOD_SIZE \<noteq> 0
        then Some (Inl length_error, t)
      else map_option (\<lambda>(res, t'). (Inr res, t'))
             (PacketPeriods_loop buf PacketPeriods_MIN_SIZE Map.empty t))"

record BaudRates =
  permanent :: u8
  primary_port :: u32
  gpio :: u32
  auxiliary_rs232 :: u32
  reserved :: u32

definition BaudRates_SIZE :: nat where "BaudRates_SIZE = 17"

definition BaudRates_marshal :: "BaudRates \<Rightarrow> store \<Rightarrow> nat \<Rightarrow> store \<times> nat" where
  "BaudRates_marshal x mem out =
     (write32 (write32 (write32 (write32 (mem(out := BaudRates.permanent x))
        (out + 1) (primary_port x)) (out + 5) (gpio x)) (out + 9) (auxiliary_rs232 x))
        (out + 13) 0,
      out + 17)"

definition BaudRates_unmarshal :: "u8 list \<Rightarrow> (trace, error + BaudRates) state" where
  "BaudRates_unmarshal buf =
     (if length buf \<noteq> BaudRates_SIZE then throw length_error
      else do {
        v0 \<leftarrow> read32 buf 1;
        v1 \<leftarrow> read32 buf 5;
        v2 \<leftarrow> read32 buf 9;
        State_Monad.return (Inr \<lparr>BaudRates.permanent = 0, primary_port = v0, gpio = v1,
          auxiliary_rs232 = v2, reserved = 0\<rparr>)
      })"

record Alignment =
  permanent :: u8
  dcm :: "float list"
  gnss_antenna_offset_xyz :: "float list"
  odometer_offset_xyz :: "float list"
  external_data_offset_xyz :: "float list"

definition Alignment_SIZE :: nat where "Alignment_SIZE = 73"

definition Alignment_uninit :: Alignment where
  "Alignment_uninit = \<lparr>permanent = 0, dcm = replicate 9 0,
     gnss_antenna_offset_xyz = replicate 3 0, odometer_offset_xyz = replicate 3 0,
     external_data_offset_xyz = replicate 3 0\<rparr>"

definition Alignment_marshal :: "Alignment \<Rightarrow> store \<Rightarrow> nat \<Rightarrow> store \<times> nat" where
  "Alignment_marshal x mem out =
     (let m0 = mem(out := Alignment.permanent x);
          m1 = fold (\<lambda>i m. write32 m (out + 1 + 4 * i) (dcm x ! i)) [0..<9] m0;
          m2 = fold (\<lambda>i m.
                 write32 (write32 (write32 m
                   (out + 37 + 4 * i) (gnss_antenna_offset_xyz x ! i))
                   (out + 49 + 4 * i) (odometer_offset_xyz x ! i))
                   (out + 61 + 4 * i) (external_data_offset_xyz x ! i)) [0..<3] m1
      in (m2, out + Alignment_SIZE))"

definition Alignment_unmarshal :: "u8 list \<Rightarrow> (trace, error + Alignment) state" where
  "Alignment_unmarshal buf =
     (if length buf \<noteq> Alignment_SIZE then throw length_error
      else do {
        out \<leftarrow> for_range [0..<9] (\<lambda>i out. do {
            v \<leftarrow> read32 buf (1 + 4 * i);
            State_Monad.return (out\<lparr>dcm := (dcm out)[i := v]\<rparr>)
          })
          (Alignment_uninit\<lparr>Alignment.permanent := 0\<rparr>);
        out \<leftarrow> for_range [0..<3] (\<lambda>i out. do {
            a \<leftarrow> read32 buf (37 + 4 * i);
            b \<leftarrow> read32 buf (49 + 4 * i);
            c \<leftarrow> read32 buf (61 + 4 * i);
            State_Monad.return (out\<lparr>
              gnss_antenna_offset_xyz := (gnss_antenna_offset_xyz out)[i := a],
              odometer_offset_xyz := (odometer_offset_xyz out)[i := b],
              external_data_offset_xyz := (external_data_offset_xyz out)[i := c]\<rparr>)
          })
          out;
        State_Monad.return (Inr out)
      })"

text \<open>
  \<open>std::copy\<close> into an output iterator, and out of an input range (the indices read, in
  order).
\<close>

fun copy_out :: "u8 list \<Rightarrow> store \<Rightarrow> nat \<Rightarrow> store \<times> nat" where
  "copy_out [] mem out = (mem, out)"
| "copy_out (b # bs) mem out = copy_out bs (mem(out := b)) (out + 1)"

fun copy_in :: "u8 list \<Rightarrow> nat list \<Rightarrow> (trace, u8 list) state" where
  "copy_in buf [] = State_Monad.return []"
| "copy_in buf (i # is) = do { b \<leftarrow> deref buf i; bs \<leftarrow> copy_in buf is; State_Monad.return (b # bs) }"

text \<open>
  \<open>FilterOptions\<close> is copied as raw memory: \<open>marshal\<close> copies the seventeen bytes of the
  packed object from \<open>&permanent\<close> to \<open>reserved_1 + 9\<close>, \<open>unmarshal\<close> copies
  \<open>[begin + 1, end)\<close> over the sixteen bytes that start at \<open>&vehicle_type\<close>.
\<close>

record FilterOptions =
  permanent :: u8
  vehicle_type :: u8
  enabled_internal_gnss :: u8
  reserved_0 :: u8
  enabled_atmospheric_altitude :: u8
  enabled_velocity_heading :: u8
  enabled_reversing_detection :: u8
  enabled_motion_analysis :: u8
  reserved_1 :: "u8 list"

definition FilterOptions_SIZE :: nat where "FilterOptions_SIZE = 17"

definition FilterOptions_marshal :: "FilterOptions \<Rightarrow> store \<Rightarrow> nat \<Rightarrow> store \<times> nat" where
  "FilterOptions_marshal x mem out =
     copy_out ([FilterOptions.permanent x, vehicle_type x, enabled_internal_gnss x, reserved_0 x,
                enabled_atmospheric_altitude x, enabled_velocity_heading x,
                enabled_reversing_detection x, enabled_motion_analysis x] @ reserved_1 x)
       mem out"

definition FilterOptions_unmarshal :: "u8 list \<Rightarrow> (trace, error + FilterOptions) state" where
  "FilterOptions_unmarshal buf =
     (if length buf \<noteq> FilterOptions_SIZE then throw length_error
      else do {
        bs \<leftarrow> copy_in buf [1..<length buf];
        State_Monad.return (Inr \<lparr>FilterOptions.permanent = 0, vehicle_type = bs ! 0,
          enabled_internal_gnss = bs ! 1, reserved_0 = bs ! 2,
          enabled_atmospheric_altitude = bs ! 3, enabled_velocity_heading = bs ! 4,
          enabled_reversing_detection = bs ! 5, enabled_motion_analysis = bs ! 6,
          reserved_1 = drop 7 bs\<rparr>)
      })"

record MagneticCalibrationValues =
  permanent :: u8
  hard_iron_bias_xyz :: "float list"
  soft_iron_transformation :: "float list"

definition MagneticCalibrationValues_SIZE :: nat where "MagneticCalibrationValues_SIZE = 49"

definition MagneticCalibrationValues_uninit :: MagneticCalibrationValues where
  "MagneticCalibrationValues_uninit = \<lparr>permanent = 0, hard_iron_bias_xyz = replicate 3 0,
     soft_iron_transformation = replicate 9 0\<rparr>"

definition MagneticCalibrationValues_marshal ::
  "MagneticCalibrationValues \<Rightarrow> store \<Rightarrow> nat \<Rightarrow> store \<times> nat" where
  "MagneticCalibrationValues_marshal x mem out =
     (let m0 = mem(out := MagneticCalibrationValues.permanent x);
          m1 = fold (\<lambda>i m. write32 m (out + 1 + 4 * i) (hard_iron_bias_xyz x ! i)) [0..<3] m0;
          m2 = fold (\<lambda>i m. write32 m (out + 13 + 4 * i) (soft_iron_transformation x ! i)) [0..<9] m1
      in (m2, out + MagneticCalibrationValues_SIZE))"

definition MagneticCalibrationValues_unmarshal ::
  "u8 list \<Rightarrow> (trace, error + MagneticCalibrationValues) state" where
  "MagneticCalibrationValues_unmarshal buf =
     (if length buf \<noteq> MagneticCalibrationValues_SIZE then throw length_error
      else do {
        out \<leftarrow> for_range [0..<3] (\<lambda>i out. do {
            v \<leftarrow> read32 buf (1 + 4 * i);
            State_Monad.return (out\<lparr>hard_iron_bias_xyz := (hard_iron_bias_xyz out)[i := v]\<rparr>)
          })
          (MagneticCalibrationValues_uninit\<lparr>MagneticCalibrationValues.permanent := 0\<rparr>);
        out \<leftarrow> for_range [0..<9] (\<lambda>i out. do {
            v \<leftarrow> read32 buf (13 + 4 * i);
            State_Monad.return
              (out\<lparr>soft_iron_transformation := (soft_iron_transformation out)[i := v]\<rparr>)
          })
          out;
        State_Monad.return (Inr out)
      })"

record MagneticCalibrationStatus =
  status :: u8
  progress :: u8
  error :: u8

definition MagneticCalibrationStatus_SIZE :: nat where "MagneticCalibrationStatus_SIZE = 3"

definition MagneticCalibrationStatus_unmarshal ::
  "u8 list \<Rightarrow> (trace, error + MagneticCalibrationStatus) state" where
  "MagneticCalibrationStatus_unmarshal buf =
     (if length buf \<noteq> MagneticCalibrationStatus_SIZE then throw length_error
      else do {
        bs \<leftarrow> copy_in buf [0..<length buf];
        State_Monad.return (Inr \<lparr>MagneticCalibrationStatus.status = bs ! 0, progress = bs ! 1,
          error = bs ! 2\<rparr>)
      })"

text \<open>A zeroed output buffer.\<close>

definition zero_store :: store where
  "zero_store = (\<lambda>_. 0)"

text \<open>
  The little-endian 32-bit value held by the four store bytes from position \<open>a\<close>; it
  names what \<open>read32\<close> returns on a range taken from the store.
\<close>

definition ld32 :: "store \<Rightarrow> nat \<Rightarrow> u32" where
  "ld32 m a = ucast (m a) OR push_bit 8 (ucast (m (a + 1))) OR push_bit 16 (ucast (m (a + 2)))
     OR push_bit 24 (ucast (m (a + 3)))"

section \<open>Running the primitives\<close>

lemma run_emit: "run_state (emit e) t = ((), t @ [e])"
  by (simp add: emit_def State_Monad.update_def)

lemma run_deref: "run_state (deref buf i) t = (buf ! i, t @ [Deref i])"
  by (simp add: deref_def run_emit)

lemma run_throw: "run_state (throw e) t = (Inl e, t)"
  by (simp add: throw_def)

lemma run_crc: "run_state (crc p) t = (crc_ccitt p, t @ [CrcRun (length p)])"
  by (simp add: crc_def run_emit)

lemma run_read16:
  "run_state (read16 buf i) t =
     (ucast ((ucast (buf ! i) :: u32) OR push_bit 8 (ucast (buf ! (i + 1)))),
      t @ [Deref i, Deref (i + 1)])"
  by (simp add: read16_def run_deref)

lemma run_read32:
  "run_state (read32 buf i) t =
     (ucast (buf ! i) OR push_bit 8 (ucast (buf ! (i + 1))) OR push_bit 16 (ucast (buf ! (i + 2)))
        OR push_bit 24 (ucast (buf ! (i + 3))),
      t @ [Deref i, Deref (i + 1), Deref (i + 2), Deref (i + 3)])"
  by (simp add: read32_def run_deref)

lemma run_read64:
  "run_state (read64 buf i) t =
     (ucast (buf ! i) OR push_bit 8 (ucast (buf ! (i + 1))) OR push_bit 16 (ucast (buf ! (i + 2)))
        OR push_bit 24 (ucast (buf ! (i + 3))) OR push_bit 32 (ucast (buf ! (i + 4)))
        OR push_bit 40 (ucast (buf ! (i + 5))) OR push_bit 48 (ucast (buf ! (i + 6)))
        OR push_bit 56 (ucast (buf ! (i + 7))),
      t @ [Deref i, Deref (i + 1), Deref (i + 2), Deref (i + 3), Deref (i + 4), Deref (i + 5),
           Deref (i + 6), Deref (i + 7)])"
  by (simp add: read64_def run_deref)

lemma run_copy_in: "run_state (copy_in buf is) t = (map ((!) buf) is, t @ map Deref is)"
  by (induction "is" arbitrary: t) (simp_all add: run_deref)

lemma map_nth_from: "map ((!) xs) [a..<length xs] = drop a xs"
proof -
  have "drop a (map ((!) xs) [0..<length xs]) = map ((!) xs) [a..<length xs]"
    by (simp add: drop_map)
  then show ?thesis by (simp add: map_nth)
qed

lemma run_copy_in_from:
  "length buf = n \<Longrightarrow> run_state (copy_in buf [a..<n]) t = (drop a buf, t @ map Deref [a..<n])"
  using map_nth_from[of buf a] by (simp add: run_copy_in)

lemma upt_0_3: "[0..<3] = [0, 1, 2]"
  by (simp add: upt_rec)

lemma upt_0_9: "[0..<9] = [0, 1, 2, 3, 4, 5, 6, 7, 8]"
  by (simp add: upt_rec)

lemma bytes_of_nth: "b + i < e \<Longrightarrow> bytes_of mem b e ! i = mem (b + i)"
  by (simp add: bytes_of_def)

lemma length_bytes_of: "length (bytes_of mem b e) = e - b"
  by (simp add: bytes_of_def)

lemma bytes_of_Cons: "b < e \<Longrightarrow> bytes_of m b e = m b # bytes_of m (Suc b) e"
  by (simp add: bytes_of_def upt_conv_Cons)

section \<open>Bytes of a word\<close>

lemma mask8_u32: "(0xFF :: u32) = mask 8"
  by (simp add: mask_eq_exp_minus_1)

lemma mask8_u64: "(0xFF :: u64) = mask 8"
  by (simp add: mask_eq_exp_minus_1)

lemma take_bit_8_add_32: "take_bit 8 (take_bit 32 (a::int) + take_bit 32 b) = take_bit 8 (a + b)"
proof -
  have "take_bit 8 (take_bit 32 (take_bit 32 a + take_bit 32 b)) = take_bit 8 (take_bit 32 (a + b))"
    by (simp only: take_bit_add)
  then show ?thesis by simp
qed

lemma ucast_add_down: "(ucast (a + b :: u32) :: u8) = ucast a + ucast b"
  by transfer (simp add: take_bit_8_add_32)

lemma ucast_xor_down: "(ucast (a XOR b :: u32) :: u8) = ucast a XOR ucast b"
  by (rule bit_word_eqI) (auto simp: bit_simps)

lemma ucast_u8_u32_u8: "(ucast (ucast (a :: u8) :: u32) :: u8) = a"
  by (simp add: ucast_down_ucast_id is_down)

lemma ucast_u8_u32_inj: "((ucast (a::u8) :: u32) = ucast b) \<longleftrightarrow> a = b"
  by (metis ucast_u8_u32_u8)

lemma lo_byte_u16: "(ucast (c::u16) AND 0xFF :: u32) = ucast (ucast c :: u8)"
  unfolding mask8_u32 by (rule bit_word_eqI) (auto simp: bit_simps)

lemma hi_byte_u16:
  "(drop_bit 8 (ucast (c::u16)) AND 0xFF :: u32) = ucast (ucast (drop_bit 8 c) :: u8)"
  unfolding mask8_u32 by (rule bit_word_eqI) (auto simp: bit_simps)

lemma byte32:
  "(ucast (ucast (drop_bit k v AND 0xFF :: u32) :: u8) :: u32) = take_bit 8 (drop_bit k v)"
  unfolding mask8_u32 by (rule bit_word_eqI) (auto simp: bit_simps)

lemma byte32_0: "(ucast (ucast (v AND 0xFF :: u32) :: u8) :: u32) = take_bit 8 v"
  using byte32[of 0 v] by simp

lemma byte64:
  "(ucast (ucast (drop_bit k v AND 0xFF :: u64) :: u8) :: u64) = take_bit 8 (drop_bit k v)"
  unfolding mask8_u64 by (rule bit_word_eqI) (auto simp: bit_simps)

lemma join16:
  "(ucast ((ucast (ucast ((ucast (v::u16) :: u32) AND 0xFF) :: u8) :: u32)
       OR push_bit 8 (ucast (ucast (drop_bit 8 (ucast v :: u32) AND 0xFF) :: u8))) :: u16) = v"
  unfolding byte32 byte32_0
proof (rule bit_word_eqI)
  fix n assume "n < LENGTH(16)"
  then have "n < 16" by simp
  then consider "n < 8" | "8 \<le> n" "n < 16"
    by linarith
  then show "bit (ucast (take_bit 8 (ucast v :: u32)
      OR push_bit 8 (take_bit 8 (drop_bit 8 (ucast v :: u32)))) :: u16) n = bit v n"
    by cases (auto simp: bit_simps)
qed

lemma join32:
  "take_bit 8 v OR push_bit 8 (take_bit 8 (drop_bit 8 v))
     OR push_bit 16 (take_bit 8 (drop_bit 16 v)) OR push_bit 24 (take_bit 8 (drop_bit 24 v))
   = (v :: u32)" (is "?l = _")
proof (rule bit_word_eqI)
  fix n assume "n < LENGTH(32)"
  then have "n < 32" by simp
  then consider "n < 8" | "8 \<le> n" "n < 16" | "16 \<le> n" "n < 24" | "24 \<le> n" "n < 32"
    by linarith
  then show "bit ?l n = bit v n"
    by cases (auto simp: bit_simps)
qed

lemma low_byte_of_tail64:
  "take_bit 8 (push_bit 8 (take_bit 8 (drop_bit 8 v))
     OR push_bit 16 (take_bit 8 (drop_bit 16 v)) OR push_bit 24 (take_bit 8 (drop_bit 24 v))
     OR push_bit 32 (take_bit 8 (drop_bit 32 v)) OR push_bit 40 (take_bit 8 (drop_bit 40 v))
     OR push_bit 48 (take_bit 8 (drop_bit 48 v))
     OR push_bit 56 (take_bit 8 (drop_bit 56 (v::u64)))) = 0"
  by (rule bit_word_eqI) (auto simp: bit_simps)

section \<open>Loads from the store\<close>

lemma read32_bytes_of:
  "b + i + 3 < e \<Longrightarrow> run_state (read32 (bytes_of m b e) i) t =
     (ld32 m (b + i), t @ [Deref i, Deref (i + 1), Deref (i + 2), Deref (i + 3)])"
  by (simp add: run_read32 bytes_of_nth ld32_def add.assoc)

lemma ld32_write32_same: "a' = a \<Longrightarrow> ld32 (write32 m a v) a' = v"
  by (simp add: ld32_def write32_def byte32 byte32_0 join32)

lemma ld32_write32_other:
  "a' + 4 \<le> a \<or> a + 4 \<le> a' \<Longrightarrow> ld32 (write32 m a v) a' = ld32 m a'"
  by (auto simp add: ld32_def write32_def)

lemma snd_copy_out: "snd (copy_out bs mem out) = out + length bs"
  by (induction bs arbitrary: mem out) simp_all

lemma copy_out_below: "a < out \<Longrightarrow> fst (copy_out bs mem out) a = mem a"
  by (induction bs arbitrary: mem out) simp_all

lemma bytes_of_copy_out: "bytes_of (fst (copy_out bs mem out)) out (out + length bs) = bs"
proof (induction bs arbitrary: mem out)
  case Nil
  then show ?case by (simp add: bytes_of_def)
next
  case (Cons b bs)
  have "bytes_of (fst (copy_out (b # bs) mem out)) out (out + length (b # bs)) =
        fst (copy_out bs (mem(out := b)) (Suc out)) out #
        bytes_of (fst (copy_out bs (mem(out := b)) (Suc out))) (Suc out) (Suc out + length bs)"
    by (simp add: bytes_of_Cons)
  also have "\<dots> = b # bs"
    by (simp only: Cons.IH) (simp add: copy_out_below)
  finally show ?case .
qed

lemma replicate_3_upd: "(replicate 3 z)[0 := v0, Suc 0 := v1, 2 := v2] = [v0, v1, v2]"
  by (simp add: numeral_eq_Suc)

lemma replicate_9_upd:
  "(replicate 9 z)[0 := v0, Suc 0 := v1, 2 := v2, 3 := v3, 4 := v4, 5 := v5, 6 := v6, 7 := v7,
     8 := v8] = [v0, v1, v2, v3, v4, v5, v6, v7, v8]"
  by (simp add: numeral_eq_Suc)

lemma list_of_3: "length xs = 3 \<Longrightarrow> [xs ! 0, xs ! Suc 0, xs ! 2] = xs"
  by (rule nth_equalityI) (auto simp: nth_Cons' less_Suc_eq numeral_eq_Suc)

lemma list_of_9:
  "length xs = 9 \<Longrightarrow>
     [xs ! 0, xs ! Suc 0, xs ! 2, xs ! 3, xs ! 4, xs ! 5, xs ! 6, xs ! 7, xs ! 8] = xs"
  by (rule nth_equalityI) (auto simp: nth_Cons' less_Suc_eq numeral_eq_Suc)

section \<open>Header checksum and packet validation\<close>

text \<open>The reference vector of the test suite: the CRC of the ASCII string \<open>0123456\<close>.\<close>

lemma crc_ccitt_reference:
  "crc_ccitt [0x30, 0x31, 0x32, 0x33, 0x34, 0x35, 0x36] = 0x88A7"
  by code_simp

lemma computeHeaderChecksum_u8:
  "computeHeaderChecksum h =
     ((packet_id h + payload_length h + payload_checksum_lsb h + payload_checksum_msb h)
        XOR 0xFF) + 1"
  unfolding computeHeaderChecksum_def
  by (simp add: ucast_add_down ucast_xor_down ucast_u8_u32_u8)

lemma run_isPacketValid:
  "run_state (isPacketValid h payload) t =
     (if int (length payload) \<noteq> uint (payload_length h) then (False, t)
      else (payload_checksum_lsb h = ucast (crc_ccitt payload) \<and>
            payload_checksum_msb h = ucast (drop_bit 8 (crc_ccitt payload)),
            t @ [CrcRun (length payload)]))"
  by (auto simp: isPacketValid_def run_crc lo_byte_u16 hi_byte_u16 ucast_u8_u32_inj)

lemma run_Header_init:
  "run_state (Header_init pid payload) t =
     (let h = \<lparr>header_checksum = 0, packet_id = pid, payload_length = of_nat (length payload),
                payload_checksum_lsb = ucast (crc_ccitt payload),
                payload_checksum_msb = ucast (drop_bit 8 (crc_ccitt payload))\<rparr>
      in (h\<lparr>header_checksum := computeHeaderChecksum h\<rparr>, t @ [CrcRun (length payload)]))"
  by (simp add: Header_init_def run_crc lo_byte_u16 hi_byte_u16 ucast_u8_u32_u8 Let_def)

lemma uint_length_u8: "length p \<le> 255 \<Longrightarrow> uint (of_nat (length p) :: u8) = int (length p)"
  by (simp add: uint_nat unat_of_nat)

text \<open>
  Claim C8. \<open>isValid\<close> holds exactly when the stored header checksum equals
  \<open>((packet_id + payload_length + payload_checksum_lsb + payload_checksum_msb) ^ 0xFF) + 1\<close>
  computed on eight-bit words, that is modulo 256; the C++ computes it on \<open>int\<close> and
  truncates.
\<close>

theorem isValid_iff_lrc:
  "isValid h \<longleftrightarrow>
     header_checksum h =
       ((packet_id h + payload_length h + payload_checksum_lsb h + payload_checksum_msb h)
          XOR 0xFF) + 1"
  by (simp add: isValid_def computeHeaderChecksum_u8)

text \<open>
  Claim C1. For every packet id and every payload of at most 255 bytes, the header built by
  \<open>Header(packet_id, begin, end)\<close> passes \<open>isValid\<close>, and \<open>isPacketValid\<close> over the same
  payload returns true.
\<close>

theorem Header_init_valid:
  "length payload \<le> 255 \<Longrightarrow>
     isValid (fst (run_state (Header_init pid payload) t)) \<and>
     fst (run_state (isPacketValid (fst (run_state (Header_init pid payload) t)) payload) t')"
  by (simp add: run_Header_init run_isPacketValid Let_def isValid_def computeHeaderChecksum_def
        uint_length_u8)

theorem Header_init_valid_witness:
  "length [0x30, 0x31, 0x32, 0x33, 0x34, 0x35, 0x36 :: u8] \<le> 255 \<and>
   isValid (fst (run_state (Header_init 5 [0x30, 0x31, 0x32, 0x33, 0x34, 0x35, 0x36]) [])) \<and>
   fst (run_state (isPacketValid
          (fst (run_state (Header_init 5 [0x30, 0x31, 0x32, 0x33, 0x34, 0x35, 0x36]) []))
          [0x30, 0x31, 0x32, 0x33, 0x34, 0x35, 0x36]) [])"
  using Header_init_valid[of "[0x30, 0x31, 0x32, 0x33, 0x34, 0x35, 0x36]" 5 "[]" "[]"] by simp

text \<open>
  Claim C9. When the payload length differs from \<open>payload_length\<close>, \<open>isPacketValid\<close>
  returns false and the trace is unchanged: the CRC was not run. Otherwise the CRC runs
  once over the payload and the result is true exactly when both checksum bytes of the
  header equal the low and the high byte of that CRC.
\<close>

theorem isPacketValid_contract:
  "(int (length payload) \<noteq> uint (payload_length h) \<longrightarrow>
      run_state (isPacketValid h payload) t = (False, t)) \<and>
   (int (length payload') = uint (payload_length h') \<longrightarrow>
      run_state (isPacketValid h' payload') t =
        (payload_checksum_lsb h' = ucast (crc_ccitt payload') \<and>
         payload_checksum_msb h' = ucast (drop_bit 8 (crc_ccitt payload')),
         t @ [CrcRun (length payload')]))"
  by (simp add: run_isPacketValid)

theorem isPacketValid_contract_witness:
  "int (length [0x30, 0x31, 0x32, 0x33, 0x34, 0x35, 0x36 :: u8]) \<noteq>
     uint (payload_length (Header_default\<lparr>payload_length := 8, payload_checksum_lsb := 0xA7,
        payload_checksum_msb := 0x88\<rparr>)) \<and>
   run_state (isPacketValid (Header_default\<lparr>payload_length := 8, payload_checksum_lsb := 0xA7,
        payload_checksum_msb := 0x88\<rparr>) [0x30, 0x31, 0x32, 0x33, 0x34, 0x35, 0x36]) [] = (False, []) \<and>
   int (length [0x30, 0x31, 0x32, 0x33, 0x34, 0x35, 0x36 :: u8]) =
     uint (payload_length (Header_default\<lparr>payload_length := 7, payload_checksum_lsb := 0xA7,
        payload_checksum_msb := 0x88\<rparr>)) \<and>
   run_state (isPacketValid (Header_default\<lparr>payload_length := 7, payload_checksum_lsb := 0xA7,
        payload_checksum_msb := 0x88\<rparr>) [0x30, 0x31, 0x32, 0x33, 0x34, 0x35, 0x36]) [] =
     (True, [CrcRun 7])"
  using isPacketValid_contract[of "[0x30, 0x31, 0x32, 0x33, 0x34, 0x35, 0x36]"
      "Header_default\<lparr>payload_length := 8, payload_checksum_lsb := 0xA7,
         payload_checksum_msb := 0x88\<rparr>"
      "[]" "[0x30, 0x31, 0x32, 0x33, 0x34, 0x35, 0x36]"
      "Header_default\<lparr>payload_length := 7, payload_checksum_lsb := 0xA7,
         payload_checksum_msb := 0x88\<rparr>"]
  by (simp add: Header_default_def crc_ccitt_reference)

section \<open>Acknowledge matching and classification\<close>

lemma u8_le_6:
  "(r::u8) \<le> 6 \<Longrightarrow> r = 0 \<or> r = 1 \<or> r = 2 \<or> r = 3 \<or> r = 4 \<or> r = 5 \<or> r = 6"
proof -
  assume "r \<le> 6"
  then have "unat r \<le> 6" by (simp add: word_le_nat_alt)
  then have "unat r = 0 \<or> unat r = 1 \<or> unat r = 2 \<or> unat r = 3 \<or> unat r = 4
      \<or> unat r = 5 \<or> unat r = 6"
    by arith
  then show ?thesis
    by (auto simp: word_unat_eq_iff)
qed

text \<open>
  Claim C4. On the seven known result codes 0..6 exactly one of the five classification
  predicates holds, and each predicate holds for exactly its own codes: success for
  \<open>ACK_SUCCESS\<close>, validation failure for the CRC and size failures, protocol error for
  out-of-range and unknown-packet (never together with validation failure), system error
  for the flash failure, not-ready for system-not-ready.
\<close>

theorem acknowledge_predicates_partition:
  "result a \<le> 6 \<Longrightarrow>
     length (filter (\<lambda>b. b) [isSuccess a, isPacketValidationFailure a, isProtocolError a,
        isSystemError a, isNotReady a]) = 1 \<and>
     (isSuccess a \<longleftrightarrow> result a = ACK_SUCCESS) \<and>
     (isPacketValidationFailure a \<longleftrightarrow>
        result a = ACK_FAILED_PACKET_VALIDATION_CRC \<or>
        result a = ACK_FAILED_PACKET_VALIDATION_SIZE) \<and>
     (isProtocolError a \<longleftrightarrow>
        result a = ACK_FAILED_OUT_OF_RANGE \<or> result a = ACK_FAILED_UNKNOWN_PACKET) \<and>
     \<not> (isProtocolError a \<and> isPacketValidationFailure a) \<and>
     (isSystemError a \<longleftrightarrow> result a = ACK_FAILED_SYSTEM_FLASH_FAILURE) \<and>
     (isNotReady a \<longleftrightarrow> result a = ACK_FAILED_SYSTEM_NOT_READY)"
proof -
  assume "result a \<le> 6"
  then have "result a = 0 \<or> result a = 1 \<or> result a = 2 \<or> result a = 3 \<or> result a = 4
      \<or> result a = 5 \<or> result a = 6"
    by (rule u8_le_6)
  then show ?thesis
    by (elim disjE) (simp_all add: isSuccess_def isPacketValidationFailure_def
        isProtocolError_def isSystemError_def isNotReady_def ACK_RESULTS_defs)
qed

theorem acknowledge_predicates_partition_witness:
  "result \<lparr>acked_packet_id = 1, acked_payload_checksum_lsb = 0,
      acked_payload_checksum_msb = 0, result = 6\<rparr> \<le> 6 \<and>
   \<not> isSuccess \<lparr>acked_packet_id = 1, acked_payload_checksum_lsb = 0,
      acked_payload_checksum_msb = 0, result = 6\<rparr> \<and>
   \<not> isPacketValidationFailure \<lparr>acked_packet_id = 1, acked_payload_checksum_lsb = 0,
      acked_payload_checksum_msb = 0, result = 6\<rparr> \<and>
   isProtocolError \<lparr>acked_packet_id = 1, acked_payload_checksum_lsb = 0,
      acked_payload_checksum_msb = 0, result = 6\<rparr> \<and>
   \<not> isSystemError \<lparr>acked_packet_id = 1, acked_payload_checksum_lsb = 0,
      acked_payload_checksum_msb = 0, result = 6\<rparr> \<and>
   \<not> isNotReady \<lparr>acked_packet_id = 1, acked_payload_checksum_lsb = 0,
      acked_payload_checksum_msb = 0, result = 6\<rparr>"
  using acknowledge_predicates_partition[of "\<lparr>acked_packet_id = 1,
      acked_payload_checksum_lsb = 0, acked_payload_checksum_msb = 0, result = 6\<rparr>"]
  by (simp add: ACK_RESULTS_defs)

text \<open>
  Claim C5. \<open>isMatching\<close> holds exactly when the acknowledged packet id and both
  acknowledged checksum bytes equal those of the header; starting from a match, giving any
  single one of the three fields a different value makes it false.
\<close>

theorem isMatching_iff_fields:
  "(isMatching a h \<longleftrightarrow>
      acked_packet_id a = packet_id h \<and>
      acked_payload_checksum_lsb a = payload_checksum_lsb h \<and>
      acked_payload_checksum_msb a = payload_checksum_msb h) \<and>
   (isMatching a h \<and> v \<noteq> acked_packet_id a \<longrightarrow>
      \<not> isMatching (a\<lparr>acked_packet_id := v\<rparr>) h) \<and>
   (isMatching a h \<and> v' \<noteq> acked_payload_checksum_lsb a \<longrightarrow>
      \<not> isMatching (a\<lparr>acked_payload_checksum_lsb := v'\<rparr>) h) \<and>
   (isMatching a h \<and> v'' \<noteq> acked_payload_checksum_msb a \<longrightarrow>
      \<not> isMatching (a\<lparr>acked_payload_checksum_msb := v''\<rparr>) h)"
  by (auto simp: isMatching_def)

theorem isMatching_iff_fields_witness:
  "isMatching \<lparr>acked_packet_id = 1, acked_payload_checksum_lsb = 0xFF,
      acked_payload_checksum_msb = 0xFF, result = 0\<rparr>
     \<lparr>header_checksum = 0, packet_id = 1, payload_length = 0, payload_checksum_lsb = 0xFF,
      payload_checksum_msb = 0xFF\<rparr> \<and>
   \<not> isMatching \<lparr>acked_packet_id = 2, acked_payload_checksum_lsb = 0xFF,
      acked_payload_checksum_msb = 0xFF, result = 0\<rparr>
     \<lparr>header_checksum = 0, packet_id = 1, payload_length = 0, payload_checksum_lsb = 0xFF,
      payload_checksum_msb = 0xFF\<rparr> \<and>
   \<not> isMatching \<lparr>acked_packet_id = 1, acked_payload_checksum_lsb = 0x10,
      acked_payload_checksum_msb = 0xFF, result = 0\<rparr>
     \<lparr>header_checksum = 0, packet_id = 1, payload_length = 0, payload_checksum_lsb = 0xFF,
      payload_checksum_msb = 0xFF\<rparr> \<and>
   \<not> isMatching \<lparr>acked_packet_id = 1, acked_payload_checksum_lsb = 0xFF,
      acked_payload_checksum_msb = 0x10, result = 0\<rparr>
     \<lparr>header_checksum = 0, packet_id = 1, payload_length = 0, payload_checksum_lsb = 0xFF,
      payload_checksum_msb = 0xFF\<rparr>"
  using isMatching_iff_fields[of
      "\<lparr>acked_packet_id = 1, acked_payload_checksum_lsb = 0xFF,
        acked_payload_checksum_msb = 0xFF, result = 0\<rparr>"
      "\<lparr>header_checksum = 0, packet_id = 1, payload_length = 0, payload_checksum_lsb = 0xFF,
        payload_checksum_msb = 0xFF\<rparr>" 2 "0x10" "0x10"]
  by simp

section \<open>Decoders and the length check\<close>

text \<open>
  Each fixed-size decoder compares the length of its input with the size of its type
  before anything else; on a mismatch it throws and the trace is the one it started with.
\<close>

lemma Acknowledge_unmarshal_wrong_length:
  "length buf \<noteq> Acknowledge_SIZE \<Longrightarrow>
     run_state (Acknowledge_unmarshal buf) t = (Inl length_error, t)"
  by (simp add: Acknowledge_unmarshal_def run_throw)

lemma BootMode_unmarshal_wrong_length:
  "length buf \<noteq> BootMode_SIZE \<Longrightarrow>
     run_state (BootMode_unmarshal buf) t = (Inl length_error, t)"
  by (simp add: BootMode_unmarshal_def run_throw)

lemma DeviceInformation_unmarshal_wrong_length:
  "length buf \<noteq> DeviceInformation_SIZE \<Longrightarrow>
     run_state (DeviceInformation_unmarshal buf) t = (Inl length_error, t)"
  by (simp add: DeviceInformation_unmarshal_def run_throw)

lemma SystemState_unmarshal_wrong_length:
  "length buf \<noteq> SystemState_SIZE \<Longrightarrow>
     run_state (SystemState_unmarshal buf) t = (Inl length_error, t)"
  by (simp add: SystemState_unmarshal_def run_throw)

lemma UnixTime_unmarshal_wrong_length:
  "length buf \<noteq> UnixTime_SIZE \<Longrightarrow>
     run_state (UnixTime_unmarshal buf) t = (Inl length_error, t)"
  by (simp add: UnixTime_unmarshal_def run_throw)

lemma Status_unmarshal_wrong_length:
  "length buf \<noteq> Status_SIZE \<Longrightarrow>
     run_state (Status_unmarshal buf) t = (Inl length_error, t)"
  by (simp add: Status_unmarshal_def run_throw)

lemma GeodeticPositionStandardDeviation_unmarshal_wrong_length:
  "length buf \<noteq> GeodeticPositionStandardDeviation_SIZE \<Longrightarrow>
     run_state (GeodeticPositionStandardDeviation_unmarshal buf) t = (Inl length_error, t)"
  by (simp add: GeodeticPositionStandardDeviation_unmarshal_def run_throw)

lemma NEDVelocityStandardDeviation_unmarshal_wrong_length:
  "length buf \<noteq> NEDVelocityStandardDeviation_SIZE \<Longrightarrow>
     run_state (NEDVelocityStandardDeviation_unmarshal buf) t = (Inl length_error, t)"
  by (simp add: NEDVelocityStandardDeviation_unmarshal_def run_throw)

lemma EulerOrientationStandardDeviation_unmarshal_wrong_length:
  "length buf \<noteq> EulerOrientationStandardDeviation_SIZE \<Longrightarrow>
     run_state (EulerOrientationStandardDeviation_unmarshal buf) t = (Inl length_error, t)"
  by (simp add: EulerOrientationStandardDeviation_unmarshal_def run_throw)

lemma RawSensors_unmarshal_wrong_length:
  "length buf \<noteq> RawSensors_SIZE \<Longrightarrow>
     run_state (RawSensors_unmarshal buf) t = (Inl length_error, t)"
  by (simp add: RawSensors_unmarshal_def run_throw)

lemma RawGNSS_unmarshal_wrong_length:
  "length buf \<noteq> RawGNSS_SIZE \<Longrightarrow>
     run_state (RawGNSS_unmarshal buf) t = (Inl length_error, t)"
  by (simp add: RawGNSS_unmarshal_def run_throw)

lemma Satellites_unmarshal_wrong_length:
  "length buf \<noteq> Satellites_SIZE \<Longrightarrow>
     run_state (Satellites_unmarshal buf) t = (Inl length_error, t)"
  by (simp add: Satellites_unmarshal_def run_throw)

lemma NEDVelocity_unmarshal_wrong_length:
  "length buf \<noteq> NEDVelocity_SIZE \<Longrightarrow>
     run_state (NEDVelocity_unmarshal buf) t = (Inl length_error, t)"
  by (simp add: NEDVelocity_unmarshal_def run_throw)

lemma BodyVelocity_unmarshal_wrong_length:
  "length buf \<noteq> BodyVelocity_SIZE \<Longrightarrow>
     run_state (BodyVelocity_unmarshal buf) t = (Inl length_error, t)"
  by (simp add: BodyVelocity_unmarshal_def run_throw)

lemma Acceleration_unmarshal_wrong_length:
  "length buf \<noteq> Acceleration_SIZE \<Longrightarrow>
     run_state (Acceleration_unmarshal buf) t = (Inl length_error, t)"
  by (simp add: Acceleration_unmarshal_def run_throw)

lemma BodyAcceleration_unmarshal_wrong_length:
  "length buf \<noteq> BodyAcceleration_SIZE \<Longrightarrow>
     run_state (BodyAcceleration_unmarshal buf) t = (Inl length_error, t)"
  by (simp add: BodyAcceleration_unmarshal_def run_throw)

lemma QuaternionOrientation_unmarshal_wrong_length:
  "length buf \<noteq> QuaternionOrientation_SIZE \<Longrightarrow>
     run_state (QuaternionOrientation_unmarshal buf) t = (Inl length_error, t)"
  by (simp add: QuaternionOrientation_unmarshal_def run_throw)

lemma AngularVelocity_unmarshal_wrong_length:
  "length buf \<noteq> AngularVelocity_SIZE \<Longrightarrow>
     run_state (AngularVelocity_unmarshal buf) t = (Inl length_error, t)"
  by (simp add: AngularVelocity_unmarshal_def run_throw)

lemma AngularAcceleration_unmarshal_wrong_length:
  "length buf \<noteq> AngularAcceleration_SIZE \<Longrightarrow>
     run_state (AngularAcceleration_unmarshal buf) t = (Inl length_error, t)"
  by (simp add: AngularAcceleration_unmarshal_def run_throw)

lemma LocalMagneticField_unmarshal_wrong_length:
  "length buf \<noteq> LocalMagneticField_SIZE \<Longrightarrow>
     run_state (LocalMagneticField_unmarshal buf) t = (Inl length_error, t)"
  by (simp add: LocalMagneticField_unmarshal_def run_throw)

lemma PacketTimerPeriod_unmarshal_wrong_length:
  "length buf \<noteq> PacketTimerPeriod_SIZE \<Longrightarrow>
     run_state (PacketTimerPeriod_unmarshal buf) t = (Inl length_error, t)"
  by (simp add: PacketTimerPeriod_unmarshal_def run_throw)

lemma BaudRates_unmarshal_wrong_length:
  "length buf \<noteq> BaudRates_SIZE \<Longrightarrow>
     run_state (BaudRates_unmarshal buf) t = (Inl length_error, t)"
  by (simp add: BaudRates_unmarshal_def run_throw)

lemma Alignment_unmarshal_wrong_length:
  "length buf \<noteq> Alignment_SIZE \<Longrightarrow>
     run_state (Alignment_unmarshal buf) t = (Inl length_error, t)"
  by (simp add: Alignment_unmarshal_def run_throw)

lemma FilterOptions_unmarshal_wrong_length:
  "length buf \<noteq> FilterOptions_SIZE \<Longrightarrow>
     run_state (FilterOptions_unmarshal buf) t = (Inl length_error, t)"
  by (simp add: FilterOptions_unmarshal_def run_throw)

lemma MagneticCalibrationValues_unmarshal_wrong_length:
  "length buf \<noteq> MagneticCalibrationValues_SIZE \<Longrightarrow>
     run_state (MagneticCalibrationValues_unmarshal buf) t = (Inl length_error, t)"
  by (simp add: MagneticCalibrationValues_unmarshal_def run_throw)

lemma MagneticCalibrationStatus_unmarshal_wrong_length:
  "length buf \<noteq> MagneticCalibrationStatus_SIZE \<Longrightarrow>
     run_state (MagneticCalibrationStatus_unmarshal buf) t = (Inl length_error, t)"
  by (simp add: MagneticCalibrationStatus_unmarshal_def run_throw)

lemma PacketPeriods_unmarshal_wrong_length:
  "(int (length buf) - int PacketPeriods_MIN_SIZE) mod int PacketPeriods_PERIOD_SIZE \<noteq> 0 \<Longrightarrow>
     PacketPeriods_unmarshal buf t = Some (Inl length_error, t)"
  by (simp add: PacketPeriods_unmarshal_def)

lemma PacketPeriods_unmarshal_too_short:
  "length buf < PacketPeriods_MIN_SIZE \<Longrightarrow>
     PacketPeriods_unmarshal buf t = Some (Inl length_error, t)"
  by (simp add: PacketPeriods_unmarshal_def)

lemma PacketPeriods_unmarshal_prefix_only:
  "length buf = PacketPeriods_MIN_SIZE \<Longrightarrow>
     PacketPeriods_unmarshal buf t = Some (Inr Map.empty, t)"
  by (simp add: PacketPeriods_unmarshal_def PacketPeriods_loop.simps)

lemma DetailedSatellites_unmarshal_wrong_length:
  "length buf mod SatelliteInfo_SIZE \<noteq> 0 \<Longrightarrow>
     DetailedSatellites_unmarshal buf info t = Some (Inl length_error, t)"
  by (simp add: DetailedSatellites_unmarshal_def)

lemma DetailedSatellites_unmarshal_empty:
  "DetailedSatellites_unmarshal [] info t = Some (Inr info, t)"
  by (simp add: DetailedSatellites_unmarshal_def DetailedSatellites_loop.simps)

text \<open>
  \<open>SatelliteInfo::unmarshal\<close> is the decoder of one record of \<open>DetailedSatellites\<close>, not of
  a packet; it has no length check and always dereferences seven positions.
\<close>

lemma SatelliteInfo_unmarshal_reads:
  "snd (run_state (SatelliteInfo_unmarshal buf b) t) =
     t @ [Deref b, Deref (b + 1), Deref (b + 2), Deref (b + 3), Deref (b + 4), Deref (b + 5),
          Deref (b + 6)]"
  by (simp add: SatelliteInfo_unmarshal_def run_deref run_read16 add.assoc)

text \<open>
  Claim C3. Every decoder of the packet catalog throws \<open>length_error\<close> when the length of
  its input is not the fixed size of its type or, for the two variable-length packets, when
  the length is not the base size plus a whole number of records; and it throws before
  dereferencing its input: the trace is unchanged. A length one below or one above the
  required size is a length different from it, so it is rejected in the same way.
\<close>

theorem decoders_reject_wrong_length:
  "(length buf \<noteq> Acknowledge_SIZE \<longrightarrow>
      run_state (Acknowledge_unmarshal buf) t = (Inl length_error, t)) \<and>
   (length buf \<noteq> BootMode_SIZE \<longrightarrow>
      run_state (BootMode_unmarshal buf) t = (Inl length_error, t)) \<and>
   (length buf \<noteq> DeviceInformation_SIZE \<longrightarrow>
      run_state (DeviceInformation_unmarshal buf) t = (Inl length_error, t)) \<and>
   (length buf \<noteq> SystemState_SIZE \<longrightarrow>
      run_state (SystemState_unmarshal buf) t = (Inl length_error, t)) \<and>
   (length buf \<noteq> UnixTime_SIZE \<longrightarrow>
      run_state (UnixTime_unmarshal buf) t = (Inl length_error, t)) \<and>
   (length buf \<noteq> Status_SIZE \<longrightarrow>
      run_state (Status_unmarshal buf) t = (Inl length_error, t)) \<and>
   (length buf \<noteq> GeodeticPositionStandardDeviation_SIZE \<longrightarrow>
      run_state (GeodeticPositionStandardDeviation_unmarshal buf) t = (Inl length_error, t)) \<and>
   (length buf \<noteq> NEDVelocityStandardDeviation_SIZE \<longrightarrow>
      run_state (NEDVelocityStandardDeviation_unmarshal buf) t = (Inl length_error, t)) \<and>
   (length buf \<noteq> EulerOrientationStandardDeviation_SIZE \<longrightarrow>
      run_state (EulerOrientationStandardDeviation_unmarshal buf) t = (Inl length_error, t)) \<and>
   (length buf \<noteq> RawSensors_SIZE \<longrightarrow>
      run_state (RawSensors_unmarshal buf) t = (Inl length_error, t)) \<and>
   (length buf \<noteq> RawGNSS_SIZE \<longrightarrow>
      run_state (RawGNSS_unmarshal buf) t = (Inl length_error, t)) \<and>
   (length buf \<noteq> Satellites_SIZE \<longrightarrow>
      run_state (Satellites_unmarshal buf) t = (Inl length_error, t)) \<and>
   (length buf \<noteq> NEDVelocity_SIZE \<longrightarrow>
      run_state (NEDVelocity_unmarshal buf) t = (Inl length_error, t)) \<and>
   (length buf \<noteq> BodyVelocity_SIZE \<longrightarrow>
      run_state (BodyVelocity_unmarshal buf) t = (Inl length_error, t)) \<and>
   (length buf \<noteq> Acceleration_SIZE \<longrightarrow>
      run_state (Acceleration_unmarshal buf) t = (Inl length_error, t)) \<and>
   (length buf \<noteq> BodyAcceleration_SIZE \<longrightarrow>
      run_state (BodyAcceleration_unmarshal buf) t = (Inl length_error, t)) \<and>
   (length buf \<noteq> QuaternionOrientation_SIZE \<longrightarrow>
      run_state (QuaternionOrientation_unmarshal buf) t = (Inl length_error, t)) \<and>
   (length buf \<noteq> AngularVelocity_SIZE \<longrightarrow>
      run_state (AngularVelocity_unmarshal buf) t = (Inl length_error, t)) \<and>
   (length buf \<noteq> AngularAcceleration_SIZE \<longrightarrow>
      run_state (AngularAcceleration_unmarshal buf) t = (Inl length_error, t)) \<and>
   (length buf \<noteq> LocalMagneticField_SIZE \<longrightarrow>
      run_state (LocalMagneticField_unmarshal buf) t = (Inl length_error, t)) \<and>
   (length buf \<noteq> PacketTimerPeriod_SIZE \<longrightarrow>
      run_state (PacketTimerPeriod_unmarshal buf) t = (Inl length_error, t)) \<and>
   (length buf \<noteq> BaudRates_SIZE \<longrightarrow>
      run_state (BaudRates_unmarshal buf) t = (Inl length_error, t)) \<and>
   (length buf \<noteq> Alignment_SIZE \<longrightarrow>
      run_state (Alignment_unmarshal buf) t = (Inl length_error, t)) \<and>
   (length buf \<noteq> FilterOptions_SIZE \<longrightarrow>
      run_state (FilterOptions_unmarshal buf) t = (Inl length_error, t)) \<and>
   (length buf \<noteq> MagneticCalibrationValues_SIZE \<longrightarrow>
      run_state (MagneticCalibrationValues_unmarshal buf) t = (Inl length_error, t)) \<and>
   (length buf \<noteq> MagneticCalibrationStatus_SIZE \<longrightarrow>
      run_state (MagneticCalibrationStatus_unmarshal buf) t = (Inl length_error, t)) \<and>
   ((int (length buf) - int PacketPeriods_MIN_SIZE) mod int PacketPeriods_PERIOD_SIZE \<noteq> 0 \<longrightarrow>
      PacketPeriods_unmarshal buf t = Some (Inl length_error, t)) \<and>
   (length buf mod SatelliteInfo_SIZE \<noteq> 0 \<longrightarrow>
      DetailedSatellites_unmarshal buf info t = Some (Inl length_error, t))"
  by (simp add: Acknowledge_unmarshal_wrong_length
        BootMode_unmarshal_wrong_length
        DeviceInformation_unmarshal_wrong_length
        SystemState_unmarshal_wrong_length
        UnixTime_unmarshal_wrong_length
        Status_unmarshal_wrong_length
        GeodeticPositionStandardDeviation_unmarshal_wrong_length
        NEDVelocityStandardDeviation_unmarshal_wrong_length
        EulerOrientationStandardDeviation_unmarshal_wrong_length
        RawSensors_unmarshal_wrong_length
        RawGNSS_unmarshal_wrong_length
        Satellites_unmarshal_wrong_length
        NEDVelocity_unmarshal_wrong_length
        BodyVelocity_unmarshal_wrong_length
        Acceleration_unmarshal_wrong_length
        BodyAcceleration_unmarshal_wrong_length
        QuaternionOrientation_unmarshal_wrong_length
        AngularVelocity_unmarshal_wrong_length
        AngularAcceleration_unmarshal_wrong_length
        LocalMagneticField_unmarshal_wrong_length
        PacketTimerPeriod_unmarshal_wrong_length
        BaudRates_unmarshal_wrong_length
        Alignment_unmarshal_wrong_length
        FilterOptions_unmarshal_wrong_length
        MagneticCalibrationValues_unmarshal_wrong_length
        MagneticCalibrationStatus_unmarshal_wrong_length
        PacketPeriods_unmarshal_wrong_length DetailedSatellites_unmarshal_wrong_length)

text \<open>
  A buffer of five bytes has none of the fixed sizes, is one byte longer than the four-byte
  types, and is neither \<open>2 + 5k\<close> nor \<open>7k\<close> bytes long.
\<close>

theorem decoders_reject_wrong_length_witness:
  "run_state (Acknowledge_unmarshal [1, 2, 3, 4, 5]) [] = (Inl length_error, []) \<and>
   run_state (BootMode_unmarshal [1, 2, 3, 4, 5]) [] = (Inl length_error, []) \<and>
   run_state (DeviceInformation_unmarshal [1, 2, 3, 4, 5]) [] = (Inl length_error, []) \<and>
   run_state (SystemState_unmarshal [1, 2, 3, 4, 5]) [] = (Inl length_error, []) \<and>
   run_state (UnixTime_unmarshal [1, 2, 3, 4, 5]) [] = (Inl length_error, []) \<and>
   run_state (Status_unmarshal [1, 2, 3, 4, 5]) [] = (Inl length_error, []) \<and>
   run_state (GeodeticPositionStandardDeviation_unmarshal [1, 2, 3, 4, 5]) [] = (Inl length_error, []) \<and>
   run_state (NEDVelocityStandardDeviation_unmarshal [1, 2, 3, 4, 5]) [] = (Inl length_error, []) \<and>
   run_state (EulerOrientationStandardDeviation_unmarshal [1, 2, 3, 4, 5]) [] = (Inl length_error, []) \<and>
   run_state (RawSensors_unmarshal [1, 2, 3, 4, 5]) [] = (Inl length_error, []) \<and>
   run_state (RawGNSS_unmarshal [1, 2, 3, 4, 5]) [] = (Inl length_error, []) \<and>
   run_state (Satellites_unmarshal [1, 2, 3, 4, 5]) [] = (Inl length_error, []) \<and>
   run_state (NEDVelocity_unmarshal [1, 2, 3, 4, 5]) [] = (Inl length_error, []) \<and>
   run_state (BodyVelocity_unmarshal [1, 2, 3, 4, 5]) [] = (Inl length_error, []) \<and>
   run_state (Acceleration_unmarshal [1, 2, 3, 4, 5]) [] = (Inl length_error, []) \<and>
   run_state (BodyAcceleration_unmarshal [1, 2, 3, 4, 5]) [] = (Inl length_error, []) \<and>
   run_state (QuaternionOrientation_unmarshal [1, 2, 3, 4, 5]) [] = (Inl length_error, []) \<and>
   run_state (AngularVelocity_unmarshal [1, 2, 3, 4, 5]) [] = (Inl length_error, []) \<and>
   run_state (AngularAcceleration_unmarshal [1, 2, 3, 4, 5]) [] = (Inl length_error, []) \<and>
   run_state (LocalMagneticField_unmarshal [1, 2, 3, 4, 5]) [] = (Inl length_error, []) \<and>
   run_state (PacketTimerPeriod_unmarshal [1, 2, 3, 4, 5]) [] = (Inl length_error, []) \<and>
   run_state (BaudRates_unmarshal [1, 2, 3, 4, 5]) [] = (Inl length_error, []) \<and>
   run_state (Alignment_unmarshal [1, 2, 3, 4, 5]) [] = (Inl length_error, []) \<and>
   run_state (FilterOptions_unmarshal [1, 2, 3, 4, 5]) [] = (Inl length_error, []) \<and>
   run_state (MagneticCalibrationValues_unmarshal [1, 2, 3, 4, 5]) [] = (Inl length_error, []) \<and>
   run_state (MagneticCalibrationStatus_unmarshal [1, 2, 3, 4, 5]) [] = (Inl length_error, []) \<and>
   PacketPeriods_unmarshal [1, 2, 3, 4, 5] [] = Some (Inl length_error, []) \<and>
   DetailedSatellites_unmarshal [1, 2, 3, 4, 5] [] [] = Some (Inl length_error, [])"
  using decoders_reject_wrong_length[where buf = "[1, 2, 3, 4, 5]" and t = "[]" and info = "[]"]
  by (simp add: Acknowledge_SIZE_def
        BootMode_SIZE_def
        DeviceInformation_SIZE_def
        SystemState_SIZE_def
        UnixTime_SIZE_def
        Status_SIZE_def
        GeodeticPositionStandardDeviation_SIZE_def
        NEDVelocityStandardDeviation_SIZE_def
        EulerOrientationStandardDeviation_SIZE_def
        RawSensors_SIZE_def
        RawGNSS_SIZE_def
        Satellites_SIZE_def
        NEDVelocity_SIZE_def
        BodyVelocity_SIZE_def
        Acceleration_SIZE_def
        BodyAcceleration_SIZE_def
        QuaternionOrientation_SIZE_def
        AngularVelocity_SIZE_def
        AngularAcceleration_SIZE_def
        LocalMagneticField_SIZE_def
        PacketTimerPeriod_SIZE_def
        BaudRates_SIZE_def
        Alignment_SIZE_def
        FilterOptions_SIZE_def
        MagneticCalibrationValues_SIZE_def
        MagneticCalibrationStatus_SIZE_def
        PacketPeriods_MIN_SIZE_def PacketPeriods_PERIOD_SIZE_def SatelliteInfo_SIZE_def)

text \<open>
  Claim C6. \<open>PacketPeriods::unmarshal\<close> on exactly the two prefix bytes returns the empty
  map; it throws when the buffer is shorter than two bytes or when the length minus two is
  not a multiple of five. \<open>DetailedSatellites::unmarshal\<close> on the empty buffer returns
  without error and appends nothing, so an empty vector stays empty; it throws when the
  length is not a multiple of seven. All these runs return.
\<close>

theorem variable_length_decoders_boundaries:
  "(length buf = 2 \<longrightarrow> PacketPeriods_unmarshal buf t = Some (Inr Map.empty, t)) \<and>
   (length buf' < 2 \<or> (int (length buf') - 2) mod 5 \<noteq> 0 \<longrightarrow>
      PacketPeriods_unmarshal buf' t = Some (Inl length_error, t)) \<and>
   DetailedSatellites_unmarshal [] info t = Some (Inr info, t) \<and>
   (length buf'' mod 7 \<noteq> 0 \<longrightarrow>
      DetailedSatellites_unmarshal buf'' info t = Some (Inl length_error, t))"
  using PacketPeriods_unmarshal_prefix_only[of buf t]
    PacketPeriods_unmarshal_too_short[of buf' t]
    PacketPeriods_unmarshal_wrong_length[of buf' t]
    DetailedSatellites_unmarshal_empty[of info t]
    DetailedSatellites_unmarshal_wrong_length[of buf'' info t]
  by (auto simp: PacketPeriods_MIN_SIZE_def PacketPeriods_PERIOD_SIZE_def SatelliteInfo_SIZE_def)

theorem variable_length_decoders_boundaries_witness:
  "PacketPeriods_unmarshal [1, 1] [] = Some (Inr Map.empty, []) \<and>
   PacketPeriods_unmarshal [1] [] = Some (Inl length_error, []) \<and>
   PacketPeriods_unmarshal [1, 1, 7] [] = Some (Inl length_error, []) \<and>
   DetailedSatellites_unmarshal [] [] [] = Some (Inr [], []) \<and>
   DetailedSatellites_unmarshal [1, 2, 3] [] [] = Some (Inl length_error, [])"
  using variable_length_decoders_boundaries[where buf = "[1, 1]" and buf' = "[1]"
      and buf'' = "[1, 2, 3]" and t = "[]" and info = "[]"]
    variable_length_decoders_boundaries[where buf = "[1, 1]" and buf' = "[1, 1, 7]"
      and buf'' = "[1, 2, 3]" and t = "[]" and info = "[]"]
  by simp

section \<open>The permanent flag and the round trip\<close>

text \<open>What the decoders of the configuration packets return on a buffer of the right size.\<close>

lemma PacketTimerPeriod_unmarshal_ok:
  "length buf = PacketTimerPeriod_SIZE \<Longrightarrow>
     fst (run_state (PacketTimerPeriod_unmarshal buf) t) =
       Inr \<lparr>PacketTimerPeriod.permanent = 0, utc_synchronization = buf ! 1,
         period = ucast ((ucast (buf ! 2) :: u32) OR push_bit 8 (ucast (buf ! 3)))\<rparr>"
  by (simp add: PacketTimerPeriod_unmarshal_def run_deref run_read16)

lemma BaudRates_unmarshal_ok:
  "length buf = BaudRates_SIZE \<Longrightarrow>
     (\<exists>v. fst (run_state (BaudRates_unmarshal buf) t) = Inr v \<and> BaudRates.permanent v = 0)"
  by (simp add: BaudRates_unmarshal_def run_read32)

lemma Alignment_unmarshal_ok:
  "length buf = Alignment_SIZE \<Longrightarrow>
     (\<exists>v. fst (run_state (Alignment_unmarshal buf) t) = Inr v \<and> Alignment.permanent v = 0)"
  by (simp add: Alignment_unmarshal_def run_read32 Alignment_uninit_def split_def upt_0_3 upt_0_9)

lemma FilterOptions_unmarshal_ok:
  "length buf = FilterOptions_SIZE \<Longrightarrow>
     (\<exists>v. fst (run_state (FilterOptions_unmarshal buf) t) = Inr v \<and>
          FilterOptions.permanent v = 0)"
  by (simp add: FilterOptions_unmarshal_def run_copy_in)

lemma MagneticCalibrationValues_unmarshal_ok:
  "length buf = MagneticCalibrationValues_SIZE \<Longrightarrow>
     (\<exists>v. fst (run_state (MagneticCalibrationValues_unmarshal buf) t) = Inr v \<and>
          MagneticCalibrationValues.permanent v = 0)"
  by (simp add: MagneticCalibrationValues_unmarshal_def run_read32
        MagneticCalibrationValues_uninit_def split_def upt_0_3 upt_0_9)

text \<open>
  Claim C7. For each configuration packet with a leading \<open>permanent\<close> byte
  (\<open>PacketTimerPeriod\<close>, \<open>BaudRates\<close>, \<open>Alignment\<close>, \<open>FilterOptions\<close>,
  \<open>MagneticCalibrationValues\<close>), the decoder succeeds on every buffer of the right length
  and the value it returns has \<open>permanent = 0\<close>, whatever the first byte of the buffer is.
\<close>

theorem unmarshal_permanent_is_zero:
  "(length b1 = PacketTimerPeriod_SIZE \<longrightarrow>
      (\<exists>v. fst (run_state (PacketTimerPeriod_unmarshal b1) t) = Inr v \<and>
           PacketTimerPeriod.permanent v = 0)) \<and>
   (length b2 = BaudRates_SIZE \<longrightarrow>
      (\<exists>v. fst (run_state (BaudRates_unmarshal b2) t) = Inr v \<and> BaudRates.permanent v = 0)) \<and>
   (length b3 = Alignment_SIZE \<longrightarrow>
      (\<exists>v. fst (run_state (Alignment_unmarshal b3) t) = Inr v \<and> Alignment.permanent v = 0)) \<and>
   (length b4 = FilterOptions_SIZE \<longrightarrow>
      (\<exists>v. fst (run_state (FilterOptions_unmarshal b4) t) = Inr v \<and>
           FilterOptions.permanent v = 0)) \<and>
   (length b5 = MagneticCalibrationValues_SIZE \<longrightarrow>
      (\<exists>v. fst (run_state (MagneticCalibrationValues_unmarshal b5) t) = Inr v \<and>
           MagneticCalibrationValues.permanent v = 0))"
  by (simp add: PacketTimerPeriod_unmarshal_ok BaudRates_unmarshal_ok Alignment_unmarshal_ok
        FilterOptions_unmarshal_ok MagneticCalibrationValues_unmarshal_ok)

theorem unmarshal_permanent_is_zero_witness:
  "(\<exists>v. fst (run_state (PacketTimerPeriod_unmarshal [1, 2, 3, 4]) []) = Inr v \<and>
        PacketTimerPeriod.permanent v = 0) \<and>
   (\<exists>v. fst (run_state (BaudRates_unmarshal (replicate 17 0xFF)) []) = Inr v \<and>
        BaudRates.permanent v = 0) \<and>
   (\<exists>v. fst (run_state (Alignment_unmarshal (replicate 73 0xFF)) []) = Inr v \<and>
        Alignment.permanent v = 0) \<and>
   (\<exists>v. fst (run_state (FilterOptions_unmarshal (replicate 17 0xFF)) []) = Inr v \<and>
        FilterOptions.permanent v = 0) \<and>
   (\<exists>v. fst (run_state (MagneticCalibrationValues_unmarshal (replicate 49 0xFF)) []) = Inr v \<and>
        MagneticCalibrationValues.permanent v = 0)"
  using unmarshal_permanent_is_zero[where ?b1.0 = "[1, 2, 3, 4]" and ?b2.0 = "replicate 17 0xFF"
      and ?b3.0 = "replicate 73 0xFF" and ?b4.0 = "replicate 17 0xFF"
      and ?b5.0 = "replicate 49 0xFF" and t = "[]"]
  by (simp add: PacketTimerPeriod_SIZE_def BaudRates_SIZE_def Alignment_SIZE_def
        FilterOptions_SIZE_def MagneticCalibrationValues_SIZE_def)

subsection \<open>Marshalling followed by unmarshalling\<close>

lemma BootMode_roundtrip:
  "fst (run_state (BootMode_unmarshal (bytes_of (fst (BootMode_marshal x mem out)) out
          (snd (BootMode_marshal x mem out)))) t) = Inr x"
  by (simp add: BootMode_marshal_def BootMode_unmarshal_def BootMode_SIZE_def length_bytes_of
        run_deref bytes_of_nth)

lemma PacketTimerPeriod_roundtrip:
  "fst (run_state (PacketTimerPeriod_unmarshal (bytes_of (fst (PacketTimerPeriod_marshal x mem out)) out
          (snd (PacketTimerPeriod_marshal x mem out)))) t) =
     Inr (x\<lparr>PacketTimerPeriod.permanent := 0\<rparr>)"
  by (simp add: PacketTimerPeriod_marshal_def PacketTimerPeriod_unmarshal_def
        PacketTimerPeriod_SIZE_def length_bytes_of run_deref run_read16 bytes_of_nth write16_def
        join16)

lemma BaudRates_roundtrip:
  "fst (run_state (BaudRates_unmarshal (bytes_of (fst (BaudRates_marshal x mem out)) out
          (snd (BaudRates_marshal x mem out)))) t) =
     Inr (x\<lparr>BaudRates.permanent := 0, reserved := 0\<rparr>)"
  by (simp add: BaudRates_marshal_def BaudRates_unmarshal_def BaudRates_SIZE_def
        length_bytes_of read32_bytes_of ld32_write32_same ld32_write32_other)

lemma Alignment_unmarshal_bytes_of:
  "fst (run_state (Alignment_unmarshal (bytes_of m b (b + 73))) t) =
     Inr \<lparr>Alignment.permanent = 0,
       dcm = [ld32 m (b + 1), ld32 m (b + 5), ld32 m (b + 9), ld32 m (b + 13), ld32 m (b + 17),
              ld32 m (b + 21), ld32 m (b + 25), ld32 m (b + 29), ld32 m (b + 33)],
       gnss_antenna_offset_xyz = [ld32 m (b + 37), ld32 m (b + 41), ld32 m (b + 45)],
       odometer_offset_xyz = [ld32 m (b + 49), ld32 m (b + 53), ld32 m (b + 57)],
       external_data_offset_xyz = [ld32 m (b + 61), ld32 m (b + 65), ld32 m (b + 69)]\<rparr>"
  by (simp add: Alignment_unmarshal_def Alignment_SIZE_def Alignment_uninit_def length_bytes_of
        read32_bytes_of upt_0_3 upt_0_9 replicate_3_upd replicate_9_upd)

lemma snd_Alignment_marshal: "snd (Alignment_marshal x mem out) = out + 73"
  by (simp add: Alignment_marshal_def Alignment_SIZE_def Let_def)

lemma Alignment_marshal_dcm:
  "[ld32 (fst (Alignment_marshal x mem out)) (out + 1),
    ld32 (fst (Alignment_marshal x mem out)) (out + 5),
    ld32 (fst (Alignment_marshal x mem out)) (out + 9),
    ld32 (fst (Alignment_marshal x mem out)) (out + 13),
    ld32 (fst (Alignment_marshal x mem out)) (out + 17),
    ld32 (fst (Alignment_marshal x mem out)) (out + 21),
    ld32 (fst (Alignment_marshal x mem out)) (out + 25),
    ld32 (fst (Alignment_marshal x mem out)) (out + 29),
    ld32 (fst (Alignment_marshal x mem out)) (out + 33)] =
   [dcm x ! 0, dcm x ! Suc 0, dcm x ! 2, dcm x ! 3, dcm x ! 4, dcm x ! 5, dcm x ! 6, dcm x ! 7,
    dcm x ! 8]"
  by (simp add: Alignment_marshal_def Let_def upt_0_3 upt_0_9 ld32_write32_same
        ld32_write32_other)

lemma Alignment_marshal_offsets:
  "[ld32 (fst (Alignment_marshal x mem out)) (out + 37),
    ld32 (fst (Alignment_marshal x mem out)) (out + 41),
    ld32 (fst (Alignment_marshal x mem out)) (out + 45)] =
   [gnss_antenna_offset_xyz x ! 0, gnss_antenna_offset_xyz x ! Suc 0,
    gnss_antenna_offset_xyz x ! 2]"
  "[ld32 (fst (Alignment_marshal x mem out)) (out + 49),
    ld32 (fst (Alignment_marshal x mem out)) (out + 53),
    ld32 (fst (Alignment_marshal x mem out)) (out + 57)] =
   [odometer_offset_xyz x ! 0, odometer_offset_xyz x ! Suc 0, odometer_offset_xyz x ! 2]"
  "[ld32 (fst (Alignment_marshal x mem out)) (out + 61),
    ld32 (fst (Alignment_marshal x mem out)) (out + 65),
    ld32 (fst (Alignment_marshal x mem out)) (out + 69)] =
   [external_data_offset_xyz x ! 0, external_data_offset_xyz x ! Suc 0,
    external_data_offset_xyz x ! 2]"
  by (simp_all add: Alignment_marshal_def Let_def upt_0_3 upt_0_9 ld32_write32_same
        ld32_write32_other)

lemma Alignment_roundtrip:
  assumes "length (dcm x) = 9" and "length (gnss_antenna_offset_xyz x) = 3"
    and "length (odometer_offset_xyz x) = 3" and "length (external_data_offset_xyz x) = 3"
  shows "fst (run_state (Alignment_unmarshal (bytes_of (fst (Alignment_marshal x mem out)) out
          (snd (Alignment_marshal x mem out)))) t) =
     Inr (x\<lparr>Alignment.permanent := 0\<rparr>)"
proof -
  have "fst (run_state (Alignment_unmarshal (bytes_of (fst (Alignment_marshal x mem out)) out
          (snd (Alignment_marshal x mem out)))) t) =
        Inr \<lparr>Alignment.permanent = 0, dcm = dcm x,
          gnss_antenna_offset_xyz = gnss_antenna_offset_xyz x,
          odometer_offset_xyz = odometer_offset_xyz x,
          external_data_offset_xyz = external_data_offset_xyz x\<rparr>"
    by (simp only: snd_Alignment_marshal Alignment_unmarshal_bytes_of Alignment_marshal_dcm
          Alignment_marshal_offsets list_of_9[OF assms(1)] list_of_3[OF assms(2)]
          list_of_3[OF assms(3)] list_of_3[OF assms(4)])
  also have "\<dots> = Inr (x\<lparr>Alignment.permanent := 0\<rparr>)"
    by simp
  finally show ?thesis .
qed

lemma MagneticCalibrationValues_unmarshal_bytes_of:
  "fst (run_state (MagneticCalibrationValues_unmarshal (bytes_of m b (b + 49))) t) =
     Inr \<lparr>MagneticCalibrationValues.permanent = 0,
       hard_iron_bias_xyz = [ld32 m (b + 1), ld32 m (b + 5), ld32 m (b + 9)],
       soft_iron_transformation =
         [ld32 m (b + 13), ld32 m (b + 17), ld32 m (b + 21), ld32 m (b + 25), ld32 m (b + 29),
          ld32 m (b + 33), ld32 m (b + 37), ld32 m (b + 41), ld32 m (b + 45)]\<rparr>"
  by (simp add: MagneticCalibrationValues_unmarshal_def MagneticCalibrationValues_SIZE_def
        MagneticCalibrationValues_uninit_def length_bytes_of read32_bytes_of upt_0_3 upt_0_9
        replicate_3_upd replicate_9_upd)

lemma snd_MagneticCalibrationValues_marshal:
  "snd (MagneticCalibrationValues_marshal x mem out) = out + 49"
  by (simp add: MagneticCalibrationValues_marshal_def MagneticCalibrationValues_SIZE_def Let_def)

lemma MagneticCalibrationValues_marshal_loads:
  "[ld32 (fst (MagneticCalibrationValues_marshal x mem out)) (out + 1),
    ld32 (fst (MagneticCalibrationValues_marshal x mem out)) (out + 5),
    ld32 (fst (MagneticCalibrationValues_marshal x mem out)) (out + 9)] =
   [hard_iron_bias_xyz x ! 0, hard_iron_bias_xyz x ! Suc 0, hard_iron_bias_xyz x ! 2]"
  "[ld32 (fst (MagneticCalibrationValues_marshal x mem out)) (out + 13),
    ld32 (fst (MagneticCalibrationValues_marshal x mem out)) (out + 17),
    ld32 (fst (MagneticCalibrationValues_marshal x mem out)) (out + 21),
    ld32 (fst (MagneticCalibrationValues_marshal x mem out)) (out + 25),
    ld32 (fst (MagneticCalibrationValues_marshal x mem out)) (out + 29),
    ld32 (fst (MagneticCalibrationValues_marshal x mem out)) (out + 33),
    ld32 (fst (MagneticCalibrationValues_marshal x mem out)) (out + 37),
    ld32 (fst (MagneticCalibrationValues_marshal x mem out)) (out + 41),
    ld32 (fst (MagneticCalibrationValues_marshal x mem out)) (out + 45)] =
   [soft_iron_transformation x ! 0, soft_iron_transformation x ! Suc 0,
    soft_iron_transformation x ! 2, soft_iron_transformation x ! 3,
    soft_iron_transformation x ! 4, soft_iron_transformation x ! 5,
    soft_iron_transformation x ! 6, soft_iron_transformation x ! 7,
    soft_iron_transformation x ! 8]"
  by (simp_all add: MagneticCalibrationValues_marshal_def Let_def upt_0_3 upt_0_9
        ld32_write32_same ld32_write32_other)

lemma MagneticCalibrationValues_roundtrip:
  assumes "length (hard_iron_bias_xyz x) = 3" and "length (soft_iron_transformation x) = 9"
  shows "fst (run_state (MagneticCalibrationValues_unmarshal (bytes_of (fst (MagneticCalibrationValues_marshal x mem out)) out
          (snd (MagneticCalibrationValues_marshal x mem out)))) t) =
     Inr (x\<lparr>MagneticCalibrationValues.permanent := 0\<rparr>)"
proof -
  have "fst (run_state (MagneticCalibrationValues_unmarshal (bytes_of (fst (MagneticCalibrationValues_marshal x mem out)) out
          (snd (MagneticCalibrationValues_marshal x mem out)))) t) =
        Inr \<lparr>MagneticCalibrationValues.permanent = 0,
          hard_iron_bias_xyz = hard_iron_bias_xyz x,
          soft_iron_transformation = soft_iron_transformation x\<rparr>"
    by (simp only: snd_MagneticCalibrationValues_marshal
          MagneticCalibrationValues_unmarshal_bytes_of MagneticCalibrationValues_marshal_loads
          list_of_3[OF assms(1)] list_of_9[OF assms(2)])
  also have "\<dots> = Inr (x\<lparr>MagneticCalibrationValues.permanent := 0\<rparr>)"
    by simp
  finally show ?thesis .
qed

lemma FilterOptions_roundtrip:
  assumes "length (reserved_1 x) = 9"
  shows "fst (run_state (FilterOptions_unmarshal (bytes_of (fst (FilterOptions_marshal x mem out)) out
          (snd (FilterOptions_marshal x mem out)))) t) =
     Inr (x\<lparr>FilterOptions.permanent := 0\<rparr>)"
proof -
  let ?bs = "[FilterOptions.permanent x, vehicle_type x, enabled_internal_gnss x, reserved_0 x,
              enabled_atmospheric_altitude x, enabled_velocity_heading x,
              enabled_reversing_detection x, enabled_motion_analysis x] @ reserved_1 x"
  have len: "length ?bs = 17"
    using assms by simp
  have "bytes_of (fst (FilterOptions_marshal x mem out)) out
          (snd (FilterOptions_marshal x mem out)) = ?bs"
    unfolding FilterOptions_marshal_def snd_copy_out by (rule bytes_of_copy_out)
  then show ?thesis
    using len by (simp add: FilterOptions_unmarshal_def FilterOptions_SIZE_def run_copy_in_from)
qed

text \<open>
  Claim C2, as the code has it. For each fixed-size type with both \<open>marshal\<close> and
  \<open>unmarshal\<close> (\<open>BootMode\<close>, \<open>PacketTimerPeriod\<close>, \<open>BaudRates\<close>, \<open>Alignment\<close>,
  \<open>FilterOptions\<close>, \<open>MagneticCalibrationValues\<close>) and every value \<open>x\<close> of the type whose
  arrays have their declared lengths, unmarshalling the bytes written by marshalling \<open>x\<close>
  returns \<open>x\<close> with \<open>permanent\<close> replaced by 0 and, for \<open>BaudRates\<close>, \<open>reserved\<close> replaced
  by 0; \<open>BootMode\<close>, which has neither field, is returned unchanged. Floating-point fields
  are compared by bit pattern.
\<close>

theorem marshal_unmarshal_roundtrip:
  "(fst (run_state (BootMode_unmarshal (bytes_of (fst (BootMode_marshal x1 mem out)) out
          (snd (BootMode_marshal x1 mem out)))) t) = Inr x1) \<and>
   (fst (run_state (PacketTimerPeriod_unmarshal
          (bytes_of (fst (PacketTimerPeriod_marshal x2 mem out)) out
          (snd (PacketTimerPeriod_marshal x2 mem out)))) t) =
      Inr (x2\<lparr>PacketTimerPeriod.permanent := 0\<rparr>)) \<and>
   (fst (run_state (BaudRates_unmarshal (bytes_of (fst (BaudRates_marshal x3 mem out)) out
          (snd (BaudRates_marshal x3 mem out)))) t) =
      Inr (x3\<lparr>BaudRates.permanent := 0, reserved := 0\<rparr>)) \<and>
   (length (dcm x4) = 9 \<and> length (gnss_antenna_offset_xyz x4) = 3 \<and>
    length (odometer_offset_xyz x4) = 3 \<and> length (external_data_offset_xyz x4) = 3 \<longrightarrow>
      fst (run_state (Alignment_unmarshal (bytes_of (fst (Alignment_marshal x4 mem out)) out
          (snd (Alignment_marshal x4 mem out)))) t) =
      Inr (x4\<lparr>Alignment.permanent := 0\<rparr>)) \<and>
   (length (reserved_1 x5) = 9 \<longrightarrow>
      fst (run_state (FilterOptions_unmarshal
          (bytes_of (fst (FilterOptions_marshal x5 mem out)) out
          (snd (FilterOptions_marshal x5 mem out)))) t) =
      Inr (x5\<lparr>FilterOptions.permanent := 0\<rparr>)) \<and>
   (length (hard_iron_bias_xyz x6) = 3 \<and> length (soft_iron_transformation x6) = 9 \<longrightarrow>
      fst (run_state (MagneticCalibrationValues_unmarshal
          (bytes_of (fst (MagneticCalibrationValues_marshal x6 mem out)) out
          (snd (MagneticCalibrationValues_marshal x6 mem out)))) t) =
      Inr (x6\<lparr>MagneticCalibrationValues.permanent := 0\<rparr>))"
  using BootMode_roundtrip[of x1 mem out t] PacketTimerPeriod_roundtrip[of x2 mem out t]
    BaudRates_roundtrip[of x3 mem out t] Alignment_roundtrip[of x4 mem out t]
    FilterOptions_roundtrip[of x5 mem out t]
    MagneticCalibrationValues_roundtrip[of x6 mem out t]
  by blast

theorem marshal_unmarshal_roundtrip_witness:
  "length (dcm
      \<lparr>Alignment.permanent = 1, dcm = [1, 2, 3, 4, 5, 6, 7, 8, 9],
      gnss_antenna_offset_xyz = [1, 2, 3], odometer_offset_xyz = [4, 5, 6],
      external_data_offset_xyz = [7, 8, 9]\<rparr>) = 9 \<and>
   fst (run_state (Alignment_unmarshal
      (bytes_of (fst (Alignment_marshal
        \<lparr>Alignment.permanent = 1, dcm = [1, 2, 3, 4, 5, 6, 7, 8, 9],
        gnss_antenna_offset_xyz = [1, 2, 3], odometer_offset_xyz = [4, 5, 6],
        external_data_offset_xyz = [7, 8, 9]\<rparr>
        zero_store 0)) 0
      (snd (Alignment_marshal
        \<lparr>Alignment.permanent = 1, dcm = [1, 2, 3, 4, 5, 6, 7, 8, 9],
        gnss_antenna_offset_xyz = [1, 2, 3], odometer_offset_xyz = [4, 5, 6],
        external_data_offset_xyz = [7, 8, 9]\<rparr>
        zero_store 0)))) []) =
     Inr (\<lparr>Alignment.permanent = 1, dcm = [1, 2, 3, 4, 5, 6, 7, 8, 9],
          gnss_antenna_offset_xyz = [1, 2, 3], odometer_offset_xyz = [4, 5, 6],
          external_data_offset_xyz = [7, 8, 9]\<rparr>
          \<lparr>Alignment.permanent := 0\<rparr>) \<and>
   length (reserved_1
      \<lparr>FilterOptions.permanent = 1, vehicle_type = 2, enabled_internal_gnss = 3,
      reserved_0 = 0, enabled_atmospheric_altitude = 5, enabled_velocity_heading = 6,
      enabled_reversing_detection = 7, enabled_motion_analysis = 8, reserved_1 = [0, 0, 0,
      0, 0, 0, 0, 0, 0]\<rparr>) = 9 \<and>
   fst (run_state (FilterOptions_unmarshal
      (bytes_of (fst (FilterOptions_marshal
        \<lparr>FilterOptions.permanent = 1, vehicle_type = 2, enabled_internal_gnss = 3,
        reserved_0 = 0, enabled_atmospheric_altitude = 5, enabled_velocity_heading = 6,
        enabled_reversing_detection = 7, enabled_motion_analysis = 8, reserved_1 = [0, 0, 0,
        0, 0, 0, 0, 0, 0]\<rparr>
        zero_store 0)) 0
      (snd (FilterOptions_marshal
        \<lparr>FilterOptions.permanent = 1, vehicle_type = 2, enabled_internal_gnss = 3,
        reserved_0 = 0, enabled_atmospheric_altitude = 5, enabled_velocity_heading = 6,
        enabled_reversing_detection = 7, enabled_motion_analysis = 8, reserved_1 = [0, 0, 0,
        0, 0, 0, 0, 0, 0]\<rparr>
        zero_store 0)))) []) =
     Inr (\<lparr>FilterOptions.permanent = 1, vehicle_type = 2, enabled_internal_gnss = 3,
          reserved_0 = 0, enabled_atmospheric_altitude = 5, enabled_velocity_heading = 6,
          enabled_reversing_detection = 7, enabled_motion_analysis = 8, reserved_1 = [0, 0,
          0, 0, 0, 0, 0, 0, 0]\<rparr>
          \<lparr>FilterOptions.permanent := 0\<rparr>) \<and>
   length (soft_iron_transformation
      \<lparr>MagneticCalibrationValues.permanent = 1, hard_iron_bias_xyz = [1, 2, 3],
      soft_iron_transformation = [1, 0, 0, 0, 1, 0, 0, 0, 1]\<rparr>) = 9 \<and>
   fst (run_state (MagneticCalibrationValues_unmarshal
      (bytes_of (fst (MagneticCalibrationValues_marshal
        \<lparr>MagneticCalibrationValues.permanent = 1, hard_iron_bias_xyz = [1, 2, 3],
        soft_iron_transformation = [1, 0, 0, 0, 1, 0, 0, 0, 1]\<rparr>
        zero_store 0)) 0
      (snd (MagneticCalibrationValues_marshal
        \<lparr>MagneticCalibrationValues.permanent = 1, hard_iron_bias_xyz = [1, 2, 3],
        soft_iron_transformation = [1, 0, 0, 0, 1, 0, 0, 0, 1]\<rparr>
        zero_store 0)))) []) =
     Inr (\<lparr>MagneticCalibrationValues.permanent = 1, hard_iron_bias_xyz = [1, 2, 3],
          soft_iron_transformation = [1, 0, 0, 0, 1, 0, 0, 0, 1]\<rparr>
          \<lparr>MagneticCalibrationValues.permanent := 0\<rparr>)"
  using marshal_unmarshal_roundtrip[where
      ?x4.0 = "\<lparr>Alignment.permanent = 1, dcm = [1, 2, 3, 4, 5, 6, 7, 8, 9],
        gnss_antenna_offset_xyz = [1, 2, 3], odometer_offset_xyz = [4, 5, 6],
        external_data_offset_xyz = [7, 8, 9]\<rparr>"
      and ?x5.0 = "\<lparr>FilterOptions.permanent = 1, vehicle_type = 2, enabled_internal_gnss = 3,
        reserved_0 = 0, enabled_atmospheric_altitude = 5, enabled_velocity_heading = 6,
        enabled_reversing_detection = 7, enabled_motion_analysis = 8, reserved_1 = [0, 0, 0,
        0, 0, 0, 0, 0, 0]\<rparr>"
      and ?x6.0 = "\<lparr>MagneticCalibrationValues.permanent = 1, hard_iron_bias_xyz = [1, 2, 3],
        soft_iron_transformation = [1, 0, 0, 0, 1, 0, 0, 0, 1]\<rparr>"
      and mem = zero_store and out = 0 and t = "[]"]
  by simp

text \<open>
  The claim as the specification states it, that the round trip returns \<open>x\<close> itself, fails
  for a \<open>PacketTimerPeriod\<close> with \<open>permanent = 1\<close> (the values of the test suite).
\<close>

theorem roundtrip_identity_counterexample:
  "fst (run_state (PacketTimerPeriod_unmarshal
      (bytes_of (fst (PacketTimerPeriod_marshal
        \<lparr>PacketTimerPeriod.permanent = 1, utc_synchronization = 2, period =
        0x0403\<rparr>
        zero_store 0)) 0
      (snd (PacketTimerPeriod_marshal
        \<lparr>PacketTimerPeriod.permanent = 1, utc_synchronization = 2, period =
        0x0403\<rparr>
        zero_store 0)))) []) \<noteq>
     Inr \<lparr>PacketTimerPeriod.permanent = 1, utc_synchronization = 2, period = 0x0403\<rparr>"
  by (simp add: PacketTimerPeriod_roundtrip)

section \<open>The 64-bit write helper\<close>

lemma read64_write64_zero_store:
  "fst (run_state (read64 (bytes_of (write64 zero_store out v) out (out + 8)) 0) t) =
   push_bit 8 (take_bit 8 (drop_bit 8 v))
   OR push_bit 16 (take_bit 8 (drop_bit 16 v)) OR push_bit 24 (take_bit 8 (drop_bit 24 v))
   OR push_bit 32 (take_bit 8 (drop_bit 32 v)) OR push_bit 40 (take_bit 8 (drop_bit 40 v))
   OR push_bit 48 (take_bit 8 (drop_bit 48 v)) OR push_bit 56 (take_bit 8 (drop_bit 56 v))"
  by (simp add: run_read64 bytes_of_nth write64_def zero_store_def byte64)

lemma read64_write64_differs:
  assumes "v AND 0xFF \<noteq> 0"
  shows "fst (run_state (read64 (bytes_of (write64 zero_store out v) out (out + 8)) 0) t) \<noteq> v"
proof
  assume eq: "fst (run_state (read64 (bytes_of (write64 zero_store out v) out (out + 8)) 0) t) = v"
  have "take_bit 8 v = 0"
    using low_byte_of_tail64[of v] eq unfolding read64_write64_zero_store by simp
  then show False
    using assms by (simp add: mask8_u64 take_bit_eq_mask)
qed

lemma write64_frame: "a < out + 1 \<or> out + 7 < a \<Longrightarrow> write64 mem out v a = mem a"
  by (auto simp: write64_def)

text \<open>
  Claim C10. \<open>write64\<close> stores only at the positions \<open>out + 1\<close> to \<open>out + 7\<close>: every other
  position of the store, \<open>out + 0\<close> in particular, keeps its byte. So when a 64-bit value
  whose least significant byte is not zero is written into a zeroed buffer, \<open>read64\<close> of
  the eight bytes does not give the value back.
\<close>

theorem write64_skips_first_byte:
  "write64 mem out v out = mem out \<and>
   (a < out + 1 \<or> out + 7 < a \<longrightarrow> write64 mem out v a = mem a) \<and>
   (w AND 0xFF \<noteq> 0 \<longrightarrow>
      fst (run_state (read64 (bytes_of (write64 zero_store out w) out (out + 8)) 0) t) \<noteq> w)"
  using write64_frame[of out out mem v] write64_frame[of a out mem v]
    read64_write64_differs[of w out t]
  by simp

theorem write64_skips_first_byte_witness:
  "write64 zero_store 0 0x0102030405060708 8 = zero_store 8 \<and>
   (0x0102030405060708 :: u64) AND 0xFF \<noteq> 0 \<and>
   fst (run_state (read64 (bytes_of (write64 zero_store 0 0x0102030405060708) 0 (0 + 8)) 0) [])
     \<noteq> 0x0102030405060708"
  using write64_skips_first_byte[where mem = zero_store and out = 0
      and v = "0x0102030405060708" and a = 8 and w = "0x0102030405060708" and t = "[]"]
  by simp

end
